theory Spec2Isabelle
  imports Complex_Main "HOL-Library.Multiset"
begin

section \<open>Python values\<close>

text \<open>
  The screener computes with Python and numpy floats. They are modelled as exact reals
  extended with the three special values a numpy computation can produce: the two
  infinities (division of a non-zero number by zero) and NaN, which pandas also uses
  for "no value" (a rolling window that is not yet full). Rounding error of binary
  floating point and the sign of zero are not modelled. Every ordering comparison
  with NaN is false, as in IEEE 754.
\<close>

datatype fl = Num real | PInf | NInf | NaN

fun fl_lt :: "fl \<Rightarrow> fl \<Rightarrow> bool" where
  "fl_lt (Num a) (Num b) = (a < b)"
| "fl_lt (Num a) PInf = True"
| "fl_lt NInf (Num b) = True"
| "fl_lt NInf PInf = True"
| "fl_lt _ _ = False"

definition fl_gt :: "fl \<Rightarrow> fl \<Rightarrow> bool" where
  "fl_gt a b = fl_lt b a"

fun fl_le :: "fl \<Rightarrow> fl \<Rightarrow> bool" where
  "fl_le (Num a) (Num b) = (a \<le> b)"
| "fl_le NaN _ = False"
| "fl_le _ NaN = False"
| "fl_le NInf _ = True"
| "fl_le _ PInf = True"
| "fl_le _ _ = False"

fun fl_neg :: "fl \<Rightarrow> fl" where
  "fl_neg (Num a) = Num (- a)"
| "fl_neg PInf = NInf"
| "fl_neg NInf = PInf"
| "fl_neg NaN = NaN"

fun fl_add :: "fl \<Rightarrow> fl \<Rightarrow> fl" where
  "fl_add (Num a) (Num b) = Num (a + b)"
| "fl_add NaN _ = NaN"
| "fl_add _ NaN = NaN"
| "fl_add PInf NInf = NaN"
| "fl_add NInf PInf = NaN"
| "fl_add PInf _ = PInf"
| "fl_add NInf _ = NInf"
| "fl_add _ PInf = PInf"
| "fl_add _ NInf = NInf"

definition fl_sub :: "fl \<Rightarrow> fl \<Rightarrow> fl" where
  "fl_sub a b = fl_add a (fl_neg b)"

text \<open>The sign of a value that is not NaN: \<open>-1\<close>, \<open>0\<close> or \<open>1\<close>.\<close>

fun fl_sign :: "fl \<Rightarrow> int" where
  "fl_sign (Num a) = (if a < 0 then - 1 else if a = 0 then 0 else 1)"
| "fl_sign PInf = 1"
| "fl_sign NInf = - 1"
| "fl_sign NaN = 0"

definition fl_inf :: "int \<Rightarrow> fl" where
  "fl_inf s = (if s < 0 then NInf else if s = 0 then NaN else PInf)"

fun fl_mul :: "fl \<Rightarrow> fl \<Rightarrow> fl" where
  "fl_mul (Num a) (Num b) = Num (a * b)"
| "fl_mul NaN _ = NaN"
| "fl_mul _ NaN = NaN"
| "fl_mul a b = fl_inf (fl_sign a * fl_sign b)"

fun fl_div :: "fl \<Rightarrow> fl \<Rightarrow> fl" where
  "fl_div (Num a) (Num b) = (if b = 0 then fl_inf (fl_sign (Num a)) else Num (a / b))"
| "fl_div NaN _ = NaN"
| "fl_div _ NaN = NaN"
| "fl_div (Num a) _ = Num 0"
| "fl_div a (Num b) = fl_inf (fl_sign a * (if b < 0 then - 1 else 1))"
| "fl_div _ _ = NaN"

text \<open>
  A Python number that is an \<open>int\<close> or a \<open>float\<close>: a score that starts as the
  literal \<open>5\<close> stays an \<open>int\<close> until a float is added to it, and the two print
  differently. \<open>min\<close> and \<open>max\<close> return their first argument unless the second is
  strictly smaller (larger).
\<close>

datatype pynum = PyInt int | PyFloat real

fun num_val :: "pynum \<Rightarrow> real" where
  "num_val (PyInt i) = real_of_int i"
| "num_val (PyFloat r) = r"

fun py_add :: "pynum \<Rightarrow> pynum \<Rightarrow> pynum" where
  "py_add (PyInt a) (PyInt b) = PyInt (a + b)"
| "py_add a b = PyFloat (num_val a + num_val b)"

definition py_min :: "pynum \<Rightarrow> pynum \<Rightarrow> pynum" where
  "py_min a b = (if num_val b < num_val a then b else a)"

definition py_max :: "pynum \<Rightarrow> pynum \<Rightarrow> pynum" where
  "py_max a b = (if num_val b > num_val a then b else a)"

text \<open>
  Python's \<open>round(x, 2)\<close>: to the nearest multiple of \<open>0.01\<close>, a tie going to the
  even one.
\<close>

definition round_half_even :: "real \<Rightarrow> int" where
  "round_half_even x =
     (let f = \<lfloor>x\<rfloor>; d = x - real_of_int f
      in if d < 1 / 2 then f else if 1 / 2 < d then f + 1 else if even f then f else f + 1)"

definition py_round2 :: "real \<Rightarrow> real" where
  "py_round2 x = real_of_int (round_half_even (x * 100)) / 100"

text \<open>
  Exceptions are values. Every exception the model raises is a subclass of Python's
  \<open>Exception\<close>, so each \<open>except Exception\<close> of the source catches it. The string is
  what \<open>str(e)\<close> gives.
\<close>

datatype py_error = IndexError string | ZeroDivisionError string | ExternalError string

fun err_msg :: "py_error \<Rightarrow> string" where
  "err_msg (IndexError m) = m"
| "err_msg (ZeroDivisionError m) = m"
| "err_msg (ExternalError m) = m"

definition bind_err :: "'e + 'a \<Rightarrow> ('a \<Rightarrow> 'e + 'b) \<Rightarrow> 'e + 'b" where
  "bind_err r f = (case r of Inl e \<Rightarrow> Inl e | Inr v \<Rightarrow> f v)"

section \<open>technical\_analyzer.py\<close>

subsection \<open>The frame and its indicator columns\<close>

text \<open>
  A row of the OHLCV frame. The exchange delivers numeric candles, so the six
  columns are reals.
\<close>

record candle =
  c_timestamp :: int
  c_open :: real
  c_high :: real
  c_low :: real
  c_close :: real
  c_volume :: real

text \<open>
  The \<open>ta\<close> library is not part of the repository. Its cleaning function and its
  indicators are parameters: each indicator maps the close column and a row index to
  the value the library stores in that row (NaN where it stores none).
\<close>

record ta_lib =
  ta_dropna :: "candle list \<Rightarrow> candle list"
  ta_macd :: "real list \<Rightarrow> nat \<Rightarrow> fl"
  ta_macd_signal :: "real list \<Rightarrow> nat \<Rightarrow> fl"
  ta_rsi :: "real list \<Rightarrow> nat \<Rightarrow> fl"
  ta_bollinger_hband :: "real list \<Rightarrow> nat \<Rightarrow> fl"
  ta_bollinger_lband :: "real list \<Rightarrow> nat \<Rightarrow> fl"
  ta_bollinger_mavg :: "real list \<Rightarrow> nat \<Rightarrow> fl"

text \<open>
  pandas' \<open>rolling(window=w).mean()\<close> at row \<open>i\<close>: no value until \<open>w\<close> rows are
  in the window, then the mean of the last \<open>w\<close> of them.
\<close>

definition rolling_mean :: "nat \<Rightarrow> real list \<Rightarrow> nat \<Rightarrow> fl" where
  "rolling_mean w xs i =
     (if i + 1 < w then NaN
      else Num (sum_list (take w (drop (i + 1 - w) xs)) / real w))"

text \<open>pandas' \<open>pct_change(periods=k)\<close> at row \<open>i\<close>: \<open>x[i] / x[i - k] - 1\<close>.\<close>

definition pct_change :: "nat \<Rightarrow> real list \<Rightarrow> nat \<Rightarrow> fl" where
  "pct_change k xs i =
     (if i < k then NaN
      else fl_sub (fl_div (Num (xs ! i)) (Num (xs ! (i - k)))) (Num 1))"

record indicator_row = candle +
  row_macd :: fl
  row_macd_signal :: fl
  row_rsi :: fl
  row_bb_high :: fl
  row_bb_low :: fl
  row_bb_mid :: fl
  row_volume_sma :: fl
  row_sma_20 :: fl
  row_sma_50 :: fl
  row_sma_200 :: fl
  row_price_change_24h :: fl
  row_price_change_7d :: fl

definition indicator_row_at :: "ta_lib \<Rightarrow> candle list \<Rightarrow> nat \<Rightarrow> indicator_row" where
  "indicator_row_at lib df i =
     (let closes = map c_close df; volumes = map c_volume df; c = df ! i
      in \<lparr> c_timestamp = c_timestamp c, c_open = c_open c, c_high = c_high c,
           c_low = c_low c, c_close = c_close c, c_volume = c_volume c,
           row_macd = ta_macd lib closes i,
           row_macd_signal = ta_macd_signal lib closes i,
           row_rsi = ta_rsi lib closes i,
           row_bb_high = ta_bollinger_hband lib closes i,
           row_bb_low = ta_bollinger_lband lib closes i,
           row_bb_mid = ta_bollinger_mavg lib closes i,
           row_volume_sma = rolling_mean 20 volumes i,
           row_sma_20 = rolling_mean 20 closes i,
           row_sma_50 = rolling_mean 50 closes i,
           row_sma_200 = rolling_mean 200 closes i,
           row_price_change_24h = pct_change 1 closes i,
           row_price_change_7d = pct_change 7 closes i \<rparr>)"

text \<open>
  \<open>_calculate_indicators\<close>: the frame with its twelve new columns. The library calls
  are taken not to raise, so the \<open>except\<close> branch of the source is not reached.
\<close>

definition calculate_indicators :: "ta_lib \<Rightarrow> candle list \<Rightarrow> indicator_row list" where
  "calculate_indicators lib df = map (indicator_row_at lib df) [0..<length df]"

text \<open>\<open>df.iloc[-k]\<close> for \<open>k \<ge> 1\<close>: the \<open>k\<close>-th row from the end, or IndexError.\<close>

definition iloc_neg :: "'a list \<Rightarrow> nat \<Rightarrow> py_error + 'a" where
  "iloc_neg df k =
     (if 1 \<le> k \<and> k \<le> length df then Inr (df ! (length df - k))
      else Inl (IndexError ''single positional indexer is out-of-bounds''))"

subsection \<open>The analysis\<close>

datatype trend = Bullish | Bearish

datatype rsi_condition = Overbought | Oversold | Neutral

datatype bb_position = Upper | Lower | Middle

datatype volume_trend = Increasing | Decreasing

record trend_analysis =
  macd_trend :: trend
  sma_trend :: trend
  long_term_trend :: trend

record momentum_analysis =
  rsi_value :: fl
  rsi_condition :: rsi_condition

record volatility_analysis =
  bb_position :: bb_position
  bb_width :: fl

record volume_analysis =
  vol_volume_trend :: volume_trend
  vol_volume_change :: fl

record price_analysis =
  pa_price_change_24h :: fl
  pa_price_change_7d :: fl
  pa_above_200_sma :: bool

record analysis =
  an_trend :: trend_analysis
  an_momentum :: momentum_analysis
  an_volatility :: volatility_analysis
  an_volume :: volume_analysis
  an_price_action :: price_analysis

definition analyze_trend :: "indicator_row list \<Rightarrow> py_error + trend_analysis" where
  "analyze_trend df =
     bind_err (iloc_neg df 1) (\<lambda>latest. Inr
       \<lparr> macd_trend = (if fl_gt (row_macd latest) (row_macd_signal latest) then Bullish else Bearish),
         sma_trend = (if fl_gt (row_sma_20 latest) (row_sma_50 latest) then Bullish else Bearish),
         long_term_trend =
           (if fl_gt (Num (c_close latest)) (row_sma_200 latest) then Bullish else Bearish) \<rparr>)"

definition analyze_momentum :: "indicator_row list \<Rightarrow> py_error + momentum_analysis" where
  "analyze_momentum df =
     bind_err (iloc_neg df 1) (\<lambda>latest. Inr
       \<lparr> rsi_value = row_rsi latest,
         rsi_condition =
           (if fl_gt (row_rsi latest) (Num 70) then Overbought
            else if fl_lt (row_rsi latest) (Num 30) then Oversold else Neutral) \<rparr>)"

definition analyze_volatility :: "indicator_row list \<Rightarrow> py_error + volatility_analysis" where
  "analyze_volatility df =
     bind_err (iloc_neg df 1) (\<lambda>latest. Inr
       \<lparr> bb_position =
           (if fl_gt (Num (c_close latest)) (row_bb_high latest) then Upper
            else if fl_lt (Num (c_close latest)) (row_bb_low latest) then Lower else Middle),
         bb_width =
           fl_div (fl_sub (row_bb_high latest) (row_bb_low latest)) (row_bb_mid latest) \<rparr>)"

definition analyze_volume :: "indicator_row list \<Rightarrow> py_error + volume_analysis" where
  "analyze_volume df =
     bind_err (iloc_neg df 1) (\<lambda>latest. Inr
       \<lparr> vol_volume_trend =
           (if fl_gt (Num (c_volume latest)) (row_volume_sma latest) then Increasing
            else Decreasing),
         vol_volume_change =
           fl_div (fl_sub (Num (c_volume latest)) (row_volume_sma latest))
             (row_volume_sma latest) \<rparr>)"

definition analyze_price_action :: "indicator_row list \<Rightarrow> py_error + price_analysis" where
  "analyze_price_action df =
     bind_err (iloc_neg df 1) (\<lambda>latest. Inr
       \<lparr> pa_price_change_24h = row_price_change_24h latest,
         pa_price_change_7d = row_price_change_7d latest,
         pa_above_200_sma = fl_gt (Num (c_close latest)) (row_sma_200 latest) \<rparr>)"

text \<open>
  \<open>_analyze_indicators\<close> reads the last two rows before it builds the analysis, so a
  frame of fewer than two rows raises IndexError.
\<close>

definition analyze_indicators :: "indicator_row list \<Rightarrow> py_error + analysis" where
  "analyze_indicators df =
     bind_err (iloc_neg df 1) (\<lambda>latest.
     bind_err (iloc_neg df 2) (\<lambda>prev.
     bind_err (analyze_trend df) (\<lambda>t.
     bind_err (analyze_momentum df) (\<lambda>m.
     bind_err (analyze_volatility df) (\<lambda>v.
     bind_err (analyze_volume df) (\<lambda>vol.
     bind_err (analyze_price_action df) (\<lambda>p.
       Inr \<lparr> an_trend = t, an_momentum = m, an_volatility = v, an_volume = vol,
             an_price_action = p \<rparr>)))))))"

text \<open>\<open>_calculate_technical_score\<close>: the score before the final clamp, then the clamp.\<close>

definition technical_score_raw :: "analysis \<Rightarrow> pynum" where
  "technical_score_raw a =
     (let score = PyInt 5;
          score = (if macd_trend (an_trend a) = Bullish then py_add score (PyFloat 0.5) else score);
          score = (if sma_trend (an_trend a) = Bullish then py_add score (PyFloat 0.5) else score);
          score = (if long_term_trend (an_trend a) = Bullish then py_add score (PyInt 1) else score);
          rsi = rsi_value (an_momentum a);
          score = (if fl_le (Num 40) rsi \<and> fl_le rsi (Num 60) then py_add score (PyInt 1)
                   else if fl_gt rsi (Num 70) \<or> fl_lt rsi (Num 30) then py_add score (PyInt (- 1))
                   else score);
          score = (if bb_position (an_volatility a) = Middle then py_add score (PyFloat 0.5) else score);
          score = (if vol_volume_trend (an_volume a) = Increasing then py_add score (PyFloat 0.5) else score);
          score = (if fl_gt (pa_price_change_24h (an_price_action a)) (Num 0)
                   then py_add score (PyFloat 0.5) else score);
          score = (if fl_gt (pa_price_change_7d (an_price_action a)) (Num 0)
                   then py_add score (PyFloat 0.5) else score)
      in score)"

definition calculate_technical_score :: "analysis \<Rightarrow> pynum" where
  "calculate_technical_score a = py_max (PyInt 1) (py_min (PyInt 10) (technical_score_raw a))"

definition generate_signals :: "analysis \<Rightarrow> string list" where
  "generate_signals a =
     (let t = an_trend a;
          signals = [];
          signals =
            (if macd_trend t = Bullish \<and> sma_trend t = Bullish \<and> long_term_trend t = Bullish
             then signals @ [''Strong uptrend confirmed by multiple indicators'']
             else if macd_trend t = Bearish \<and> sma_trend t = Bearish \<and> long_term_trend t = Bearish
             then signals @ [''Strong downtrend confirmed by multiple indicators'']
             else signals);
          rsi = rsi_value (an_momentum a);
          signals =
            (if fl_gt rsi (Num 70)
             then signals @ [''Overbought conditions - potential reversal point'']
             else if fl_lt rsi (Num 30)
             then signals @ [''Oversold conditions - potential reversal point'']
             else signals);
          signals =
            (if vol_volume_trend (an_volume a) = Increasing
                \<and> fl_gt (vol_volume_change (an_volume a)) (Num 0.5)
             then signals @ [''Significant volume increase - strong trend confirmation'']
             else signals);
          signals =
            (if pa_above_200_sma (an_price_action a)
             then signals @ [''Price above 200 SMA - long-term uptrend'']
             else signals)
      in signals)"

record technical_analysis =
  ta_technical_score :: pynum
  ta_analysis :: analysis
  ta_signals :: "string list"
  ta_analysis_time :: string

text \<open>
  \<open>analyze_technical_indicators\<close>. The frame built by the caller always has the five
  required columns, so the column check passes. The clock reading \<open>now\<close> is an
  explicit argument. The result is paired with the lines printed.
\<close>

definition technical_body :: "ta_lib \<Rightarrow> string \<Rightarrow> candle list \<Rightarrow> py_error + technical_analysis" where
  "technical_body lib now df =
     (let df = ta_dropna lib df;
          df = calculate_indicators lib df
      in bind_err (analyze_indicators df) (\<lambda>a. Inr
           \<lparr> ta_technical_score = calculate_technical_score a,
             ta_analysis = a,
             ta_signals = generate_signals a,
             ta_analysis_time = now \<rparr>))"

definition analyze_technical_indicators ::
  "ta_lib \<Rightarrow> string \<Rightarrow> candle list \<Rightarrow> technical_analysis option \<times> string list" where
  "analyze_technical_indicators lib now df =
     (case technical_body lib now df of
        Inr r \<Rightarrow> (Some r, [])
      | Inl e \<Rightarrow> (None, [''Error in technical analysis: '' @ err_msg e]))"

section \<open>sentiment\_analyzer.py\<close>

text \<open>
  The two platform clients and TextBlob are collaborators outside the repository. A
  client handle is \<open>None\<close> when its setup failed. The Twitter search returns the
  texts of the tweets found, or raises. A Reddit search is consumed lazily by
  \<open>posts.extend\<close>: it yields some submissions and may then raise, and the
  submissions yielded before the exception stay in the list.
\<close>

record post =
  post_title :: string
  post_selftext :: string

record social_api =
  twitter_api :: "(string \<Rightarrow> py_error + string list) option"
  reddit_api :: "(string \<Rightarrow> string \<Rightarrow> post list \<times> py_error option) option"
  polarity :: "string \<Rightarrow> real"

record source_sentiment =
  src_score :: "real option"
  src_sample_size :: "nat option"
  src_message :: string

record sentiment_analysis =
  sa_combined_score :: real
  sa_details :: "(string \<times> source_sentiment) list"
  sa_analysis_time :: string

definition average :: "real list \<Rightarrow> real" where
  "average xs = sum_list xs / real (length xs)"

definition analyze_twitter_sentiment :: "social_api \<Rightarrow> string \<Rightarrow> source_sentiment" where
  "analyze_twitter_sentiment api symbol =
     (case twitter_api api of
        None \<Rightarrow> \<lparr> src_score = None, src_sample_size = None,
                  src_message = ''Twitter API not available'' \<rparr>
      | Some search_tweets \<Rightarrow>
          (case search_tweets (''#'' @ symbol @ '' OR $'' @ symbol @ '' -filter:retweets'') of
             Inl e \<Rightarrow> \<lparr> src_score = None, src_sample_size = None,
                        src_message = ''Error: '' @ err_msg e \<rparr>
           | Inr tweets \<Rightarrow>
               (let sentiments = map (polarity api) tweets
                in if sentiments = []
                   then \<lparr> src_score = None, src_sample_size = None,
                          src_message = ''No tweets found'' \<rparr>
                   else \<lparr> src_score = Some (average sentiments),
                          src_sample_size = Some (length sentiments),
                          src_message = ''Analysis successful'' \<rparr>)))"

text \<open>\<open>str.lower\<close> on the ASCII letters of a ticker symbol.\<close>

definition lower_char :: "char \<Rightarrow> char" where
  "lower_char c =
     (let n = (of_char c :: nat) in if 65 \<le> n \<and> n \<le> 90 then char_of (n + 32) else c)"

definition py_lower :: "string \<Rightarrow> string" where
  "py_lower s = map lower_char s"

text \<open>The sentiment of one submission, as the loop body of the source computes it.\<close>

definition post_sentiment :: "(string \<Rightarrow> real) \<Rightarrow> post \<Rightarrow> real" where
  "post_sentiment pol p =
     (let title_weight = 0.6;
          body_weight = 0.4;
          sentiment = pol (post_title p) * title_weight
      in if post_selftext p \<noteq> [] then sentiment + pol (post_selftext p) * body_weight
         else sentiment)"

definition reddit_posts :: "(string \<Rightarrow> string \<Rightarrow> post list \<times> py_error option) \<Rightarrow> string \<Rightarrow> post list" where
  "reddit_posts search symbol =
     concat (map (\<lambda>subreddit. fst (search subreddit symbol))
       [''cryptocurrency'', ''cryptomarkets'', py_lower symbol])"

definition analyze_reddit_sentiment :: "social_api \<Rightarrow> string \<Rightarrow> source_sentiment" where
  "analyze_reddit_sentiment api symbol =
     (case reddit_api api of
        None \<Rightarrow> \<lparr> src_score = None, src_sample_size = None,
                  src_message = ''Reddit API not available'' \<rparr>
      | Some search \<Rightarrow>
          (let posts = reddit_posts search symbol;
               sentiments = map (post_sentiment (polarity api)) posts
           in if sentiments = []
              then \<lparr> src_score = None, src_sample_size = None,
                     src_message = ''No Reddit posts found'' \<rparr>
              else \<lparr> src_score = Some (average sentiments),
                     src_sample_size = Some (length sentiments),
                     src_message = ''Analysis successful'' \<rparr>))"

text \<open>
  One turn of the loop over \<open>sentiment_data.items()\<close>; the pair is
  \<open>(total_sentiment, total_weight)\<close>.
\<close>

definition combine_step :: "string \<times> source_sentiment \<Rightarrow> real \<times> real \<Rightarrow> real \<times> real" where
  "combine_step item acc =
     (case src_score (snd item) of
        None \<Rightarrow> acc
      | Some sc \<Rightarrow>
          (let weight = (if fst item = ''twitter'' then 1.0 else 0.8)
           in (fst acc + sc * weight, snd acc + weight)))"

text \<open>
  \<open>analyze_social_sentiment\<close>; \<open>timeframe_hours\<close> is passed on by the source but
  never read, and is left out.
\<close>

definition analyze_social_sentiment :: "social_api \<Rightarrow> string \<Rightarrow> string \<Rightarrow> sentiment_analysis option" where
  "analyze_social_sentiment api now symbol =
     (let sentiment_data =
            [(''twitter'', analyze_twitter_sentiment api symbol),
             (''reddit'', analyze_reddit_sentiment api symbol)];
          totals = fold combine_step sentiment_data (0, 0)
      in if snd totals = 0 then None
         else Some \<lparr> sa_combined_score = fst totals / snd totals,
                     sa_details = sentiment_data,
                     sa_analysis_time = now \<rparr>)"

definition get_sentiment_summary :: "sentiment_analysis option \<Rightarrow> string" where
  "get_sentiment_summary sentiment_data =
     (case sentiment_data of
        None \<Rightarrow> ''Sentiment analysis unavailable''
      | Some s \<Rightarrow>
          (let score = sa_combined_score s
           in if score \<ge> 0.5 then ''Very Positive - Strong community enthusiasm and support''
              else if score \<ge> 0.2 then ''Positive - Generally favorable community sentiment''
              else if score \<ge> - 0.2 then ''Neutral - Mixed or balanced community sentiment''
              else if score \<ge> - 0.5 then ''Negative - Significant community concerns''
              else ''Very Negative - Strong community skepticism or criticism''))"

section \<open>crypto\_analyzer.py\<close>

subsection \<open>Collaborators\<close>

text \<open>The three ticker fields the screener reads; the exchange delivers them as floats.\<close>

record ticker =
  tk_last :: real
  tk_open :: real
  tk_quoteVolume :: real

datatype clock_site = TechnicalClock | SentimentClock | CoinClock

text \<open>
  Everything the screener reads from outside: the exchange, the indicator library,
  the social platforms, the wall clock (one reading for each of the three places that
  call \<open>datetime.now()\<close> while a symbol is analysed) and Python's printing of a float.
\<close>

record env =
  load_markets :: "py_error + string list"
  fetch_ticker :: "string \<Rightarrow> py_error + ticker"
  fetch_ohlcv :: "string \<Rightarrow> py_error + candle list"
  technical :: ta_lib
  social :: social_api
  clock :: "clock_site \<Rightarrow> string \<Rightarrow> string"
  str_float :: "real \<Rightarrow> string"

definition min_daily_volume :: real where
  "min_daily_volume = 100000"

subsection \<open>pandas statistics of a column\<close>

definition series_mean :: "real list \<Rightarrow> fl" where
  "series_mean xs = (if xs = [] then NaN else Num (sum_list xs / real (length xs)))"

definition series_std :: "real list \<Rightarrow> fl" where
  "series_std xs =
     (if length xs < 2 then NaN
      else (let m = sum_list xs / real (length xs)
            in Num (sqrt (sum_list (map (\<lambda>x. (x - m)\<^sup>2) xs) / real (length xs - 1)))))"

text \<open>The mean of a column that may hold NaN: pandas skips the NaN entries.\<close>

definition fl_mean_skipna :: "fl list \<Rightarrow> fl" where
  "fl_mean_skipna ys =
     (let vs = filter (\<lambda>y. y \<noteq> NaN) ys
      in if vs = [] then NaN else fl_div (fold (\<lambda>y acc. fl_add acc y) vs (Num 0)) (Num (real (length vs))))"

subsection \<open>Scores\<close>

definition calculate_risk_score ::
  "fl \<Rightarrow> fl \<Rightarrow> real \<Rightarrow> technical_analysis option \<Rightarrow> sentiment_analysis option \<Rightarrow> int" where
  "calculate_risk_score volatility volume_change price_change technical_analysis sentiment_analysis =
     (let risk_score = 0;
          risk_score =
            (if fl_gt volatility (Num 50) then risk_score + 3
             else if fl_gt volatility (Num 30) then risk_score + 2
             else if fl_gt volatility (Num 10) then risk_score + 1
             else risk_score);
          risk_score =
            (if fl_lt volume_change (Num (- 50000)) then risk_score + 2
             else if fl_lt volume_change (Num (- 20000)) then risk_score + 1
             else risk_score);
          risk_score =
            (if \<bar>price_change\<bar> > 30 then risk_score + 2
             else if \<bar>price_change\<bar> > 15 then risk_score + 1
             else risk_score);
          risk_score =
            (case technical_analysis of
               None \<Rightarrow> risk_score
             | Some t \<Rightarrow>
                 (let risk_score =
                        (if bb_position (an_volatility (ta_analysis t)) \<in> {Upper, Lower}
                         then risk_score + 1 else risk_score);
                      risk_score =
                        (if rsi_condition (an_momentum (ta_analysis t)) \<in> {Overbought, Oversold}
                         then risk_score + 1 else risk_score)
                  in risk_score));
          risk_score =
            (case sentiment_analysis of
               None \<Rightarrow> risk_score
             | Some s \<Rightarrow> (if sa_combined_score s < - 0.5 then risk_score + 1 else risk_score))
      in risk_score)"

text \<open>
  \<open>assess_potential\<close>: the score before the final clamp, then the clamp. The
  \<open>ticker\<close> argument of the source is not read.
\<close>

definition potential_score_raw ::
  "candle list \<Rightarrow> technical_analysis option \<Rightarrow> sentiment_analysis option \<Rightarrow> pynum" where
  "potential_score_raw df technical_analysis sentiment_analysis =
     (let potential_score = PyInt 5;
          potential_score =
            (case technical_analysis of
               None \<Rightarrow> potential_score
             | Some t \<Rightarrow>
                 (let a = ta_analysis t;
                      potential_score =
                        (if macd_trend (an_trend a) = Bullish \<and> sma_trend (an_trend a) = Bullish
                         then py_add potential_score (PyInt 1) else potential_score);
                      potential_score =
                        (if vol_volume_trend (an_volume a) = Increasing
                         then py_add potential_score (PyInt 1) else potential_score);
                      potential_score =
                        (if fl_gt (rsi_value (an_momentum a)) (Num 50)
                         then py_add potential_score (PyFloat 0.5) else potential_score)
                  in potential_score));
          potential_score =
            (case sentiment_analysis of
               None \<Rightarrow> potential_score
             | Some s \<Rightarrow>
                 (if sa_combined_score s > 0
                  then (let sentiment_boost = py_min (PyInt 2) (PyFloat (sa_combined_score s * 2))
                        in py_add potential_score sentiment_boost)
                  else potential_score));
          closes = map c_close df;
          price_trend =
            fl_mul (fl_mean_skipna (map (pct_change 1 closes) [0..<length closes])) (Num 100);
          potential_score =
            (if fl_gt price_trend (Num 5) then py_add potential_score (PyInt 1)
             else if fl_gt price_trend (Num 2) then py_add potential_score (PyFloat 0.5)
             else potential_score)
      in potential_score)"

definition assess_potential ::
  "candle list \<Rightarrow> technical_analysis option \<Rightarrow> sentiment_analysis option \<Rightarrow> pynum" where
  "assess_potential df technical_analysis sentiment_analysis =
     py_max (PyInt 1) (py_min (PyInt 10)
       (potential_score_raw df technical_analysis sentiment_analysis))"

text \<open>
  \<open>calculate_combined_score\<close>. A sentiment result, when there is one, always holds a
  float under \<open>'combined_score'\<close>, so the \<open>is not None\<close> test of the source passes
  whenever the result is present.
\<close>

definition calculate_combined_score ::
  "int \<Rightarrow> pynum \<Rightarrow> technical_analysis option \<Rightarrow> sentiment_analysis option \<Rightarrow> real" where
  "calculate_combined_score risk_score potential_score technical_analysis sentiment_analysis =
     (let combined_score = num_val potential_score * 0.4 + (10 - real_of_int risk_score) * 0.3;
          combined_score =
            (case technical_analysis of
               None \<Rightarrow> combined_score
             | Some t \<Rightarrow>
                 (let technical_score = num_val (ta_technical_score t)
                  in combined_score + technical_score * 0.2));
          combined_score =
            (case sentiment_analysis of
               None \<Rightarrow> combined_score
             | Some s \<Rightarrow>
                 (let sentiment_score = ((sa_combined_score s + 1) / 2) * 10
                  in combined_score + sentiment_score * 0.1))
      in py_round2 combined_score)"

subsection \<open>The recommendation text\<close>

fun str_nat :: "nat \<Rightarrow> string" where
  "str_nat n =
     (if n < 10 then [char_of (48 + n)] else str_nat (n div 10) @ [char_of (48 + n mod 10)])"

definition str_int :: "int \<Rightarrow> string" where
  "str_int i = (if i < 0 then ''-'' @ str_nat (nat (- i)) else str_nat (nat i))"

fun py_str :: "(real \<Rightarrow> string) \<Rightarrow> pynum \<Rightarrow> string" where
  "py_str fmt (PyInt i) = str_int i"
| "py_str fmt (PyFloat r) = fmt r"

fun join_lines :: "string list \<Rightarrow> string" where
  "join_lines [] = []"
| "join_lines [l] = l"
| "join_lines (l # ls) = l @ [CHR 0x0A] @ join_lines ls"

definition recommendation_lines ::
  "(real \<Rightarrow> string) \<Rightarrow> int \<Rightarrow> pynum \<Rightarrow> technical_analysis option \<Rightarrow> sentiment_analysis option
     \<Rightarrow> string list" where
  "recommendation_lines fmt risk_score potential_score technical_analysis sentiment_analysis =
     (let recommendation = [];
          combined_score =
            calculate_combined_score risk_score potential_score technical_analysis sentiment_analysis;
          recommendation = recommendation @
            [if combined_score \<ge> 8
             then ''Strong Buy - Exceptional opportunity with high potential and managed risk''
             else if combined_score \<ge> 7 then ''Buy - Favorable conditions for investment''
             else if combined_score \<ge> 6 then ''Consider - Positive indicators with some caution''
             else ''Hold - Monitor for better entry points''];
          recommendation =
            (case technical_analysis of
               None \<Rightarrow> recommendation
             | Some t \<Rightarrow> recommendation @ map (\<lambda>signal. ''Technical: '' @ signal) (ta_signals t));
          risk_level =
            (if risk_score \<le> 3 then ''Low'' else if risk_score \<le> 6 then ''Moderate'' else ''High'');
          recommendation = recommendation @
            [''Risk Level: '' @ risk_level @ '' (Score: '' @ str_int risk_score @ ''/10)''];
          potential_level =
            (if num_val potential_score \<ge> 7 then ''High''
             else if num_val potential_score \<ge> 5 then ''Moderate'' else ''Low'');
          recommendation = recommendation @
            [''Potential: '' @ potential_level @ '' (Score: '' @ py_str fmt potential_score @ ''/10)''];
          recommendation =
            (case sentiment_analysis of
               None \<Rightarrow> recommendation
             | Some s \<Rightarrow> recommendation @
                 [''Market Sentiment: '' @ get_sentiment_summary sentiment_analysis])
      in recommendation)"

definition generate_recommendation ::
  "(real \<Rightarrow> string) \<Rightarrow> int \<Rightarrow> pynum \<Rightarrow> technical_analysis option \<Rightarrow> sentiment_analysis option
     \<Rightarrow> string" where
  "generate_recommendation fmt risk_score potential_score technical_analysis sentiment_analysis =
     join_lines
       (recommendation_lines fmt risk_score potential_score technical_analysis sentiment_analysis)"

subsection \<open>One coin\<close>

text \<open>
  The local variables of \<open>analyze_coin\<close> when it reaches its threshold test.
\<close>

record assessment =
  as_technical_analysis :: "technical_analysis option"
  as_sentiment_analysis :: "sentiment_analysis option"
  as_price_change_24h :: real
  as_volume_change_24h :: fl
  as_volatility :: fl
  as_risk_score :: int
  as_potential_score :: pynum
  as_combined_score :: real

text \<open>
  The body of \<open>analyze_coin\<close> up to the threshold test: the lines printed so far,
  and the exception raised or the values computed. Python's float division raises
  ZeroDivisionError on a zero opening price.
\<close>

definition coin_assessment :: "env \<Rightarrow> string \<Rightarrow> ticker \<Rightarrow> string list \<times> (py_error + assessment)" where
  "coin_assessment e symbol tk =
     (case fetch_ohlcv e symbol of
        Inl err \<Rightarrow> ([], Inl err)
      | Inr df \<Rightarrow>
          (let tech = analyze_technical_indicators (technical e) (clock e TechnicalClock symbol) df;
               technical_analysis = fst tech;
               printed = snd tech;
               base_symbol = takeWhile (\<lambda>c. c \<noteq> CHR ''/'') symbol;
               sentiment_analysis =
                 analyze_social_sentiment (social e) (clock e SentimentClock symbol) base_symbol
           in if tk_open tk = 0 then (printed, Inl (ZeroDivisionError ''float division by zero''))
              else
                (let price_change_24h = ((tk_last tk - tk_open tk) / tk_open tk) * 100;
                     volume_change_24h =
                       fl_sub (Num (tk_quoteVolume tk)) (series_mean (map c_volume df));
                     volatility =
                       fl_mul (fl_div (series_std (map c_close df)) (series_mean (map c_close df)))
                         (Num 100);
                     risk_score =
                       calculate_risk_score volatility volume_change_24h price_change_24h
                         technical_analysis sentiment_analysis;
                     potential_score = assess_potential df technical_analysis sentiment_analysis;
                     combined_score =
                       calculate_combined_score risk_score potential_score
                         technical_analysis sentiment_analysis
                 in (printed, Inr
                      \<lparr> as_technical_analysis = technical_analysis,
                        as_sentiment_analysis = sentiment_analysis,
                        as_price_change_24h = price_change_24h,
                        as_volume_change_24h = volume_change_24h,
                        as_volatility = volatility,
                        as_risk_score = risk_score,
                        as_potential_score = potential_score,
                        as_combined_score = combined_score \<rparr>))))"

record candidate =
  coin_symbol :: string
  coin_current_price :: real
  coin_price_change_24h :: real
  coin_daily_volume :: real
  coin_risk_score :: int
  coin_potential_score :: pynum
  coin_combined_score :: real
  coin_technical_analysis :: "technical_analysis option"
  coin_sentiment_analysis :: "sentiment_analysis option"
  coin_analysis_time :: string
  coin_recommendation :: string

text \<open>\<open>analyze_coin\<close>: the candidate record or \<open>None\<close>, and the lines printed.\<close>

definition analyze_coin :: "env \<Rightarrow> string \<Rightarrow> ticker \<Rightarrow> candidate option \<times> string list" where
  "analyze_coin e symbol tk =
     (case coin_assessment e symbol tk of
        (printed, Inl err) \<Rightarrow>
          (None, printed @ [''Error in analyze_coin for '' @ symbol @ '': '' @ err_msg err])
      | (printed, Inr a) \<Rightarrow>
          (if as_combined_score a \<ge> 6
           then Some
             \<lparr> coin_symbol = symbol,
               coin_current_price = tk_last tk,
               coin_price_change_24h = as_price_change_24h a,
               coin_daily_volume = tk_quoteVolume tk,
               coin_risk_score = as_risk_score a,
               coin_potential_score = as_potential_score a,
               coin_combined_score = as_combined_score a,
               coin_technical_analysis = as_technical_analysis a,
               coin_sentiment_analysis = as_sentiment_analysis a,
               coin_analysis_time = clock e CoinClock symbol,
               coin_recommendation =
                 generate_recommendation (str_float e) (as_risk_score a) (as_potential_score a)
                   (as_technical_analysis a) (as_sentiment_analysis a) \<rparr>
           else None,
           printed))"

subsection \<open>The screening run\<close>

definition endswith :: "string \<Rightarrow> string \<Rightarrow> bool" where
  "endswith s suffix =
     (length suffix \<le> length s \<and> drop (length s - length suffix) s = suffix)"

text \<open>
  One turn of the loop over the markets: the candidate appended to
  \<open>promising_coins\<close>, if any, and the lines printed.
\<close>

definition process_symbol :: "env \<Rightarrow> string \<Rightarrow> candidate option \<times> string list" where
  "process_symbol e symbol =
     (if endswith symbol ''/USDT''
      then (case fetch_ticker e symbol of
              Inl err \<Rightarrow> (None, [''Error analyzing '' @ symbol @ '': '' @ err_msg err])
            | Inr tk \<Rightarrow>
                (if tk_quoteVolume tk > min_daily_volume then analyze_coin e symbol tk
                 else (None, [])))
      else (None, []))"

fun scan_markets ::
  "env \<Rightarrow> string list \<Rightarrow> candidate list \<Rightarrow> string list \<Rightarrow> candidate list \<times> string list" where
  "scan_markets e [] promising_coins printed = (promising_coins, printed)"
| "scan_markets e (symbol # markets) promising_coins printed =
     (let r = process_symbol e symbol
      in scan_markets e markets
           (case fst r of None \<Rightarrow> promising_coins | Some c \<Rightarrow> promising_coins @ [c])
           (printed @ snd r))"

text \<open>
  \<open>list.sort(key=..., reverse=True)\<close>: CPython reverses the list, sorts it stably in
  ascending order of the key, and reverses the result.
\<close>

definition py_sort_reverse :: "('a \<Rightarrow> real) \<Rightarrow> 'a list \<Rightarrow> 'a list" where
  "py_sort_reverse f xs = rev (sort_key f (rev xs))"

definition rank_coins :: "candidate list \<Rightarrow> candidate list" where
  "rank_coins promising_coins =
     (if promising_coins \<noteq> [] then py_sort_reverse coin_combined_score promising_coins
      else promising_coins)"

definition get_promising_coins :: "env \<Rightarrow> candidate list \<times> string list" where
  "get_promising_coins e =
     (case load_markets e of
        Inl err \<Rightarrow> ([], [''Error in get_promising_coins: '' @ err_msg err])
      | Inr markets \<Rightarrow>
          (let r = scan_markets e markets [] []
           in (rank_coins (fst r), snd r)))"

section \<open>The specification's formulas\<close>


text \<open>
  The combination across platforms as the specification words it: the weighted average
  of the polarities that are available, absent when none is.
\<close>

definition spec_weighted_average :: "(real \<times> real option) list \<Rightarrow> real option" where
  "spec_weighted_average ws =
     (let avail = concat (map (\<lambda>(w, p). case p of None \<Rightarrow> [] | Some v \<Rightarrow> [(w, v)]) ws)
      in if avail = [] then None
         else Some (sum_list (map (\<lambda>(w, v). v * w) avail) / sum_list (map fst avail)))"

text \<open>
  A result with its timestamp fields blanked: two results that agree after blanking
  differ in nothing but the timestamps.
\<close>

definition strip_technical :: "technical_analysis \<Rightarrow> technical_analysis" where
  "strip_technical t = t\<lparr>ta_analysis_time := []\<rparr>"

definition strip_sentiment :: "sentiment_analysis \<Rightarrow> sentiment_analysis" where
  "strip_sentiment s = s\<lparr>sa_analysis_time := []\<rparr>"

definition strip_candidate :: "candidate \<Rightarrow> candidate" where
  "strip_candidate c =
     c\<lparr>coin_analysis_time := [],
       coin_technical_analysis := map_option strip_technical (coin_technical_analysis c),
       coin_sentiment_analysis := map_option strip_sentiment (coin_sentiment_analysis c)\<rparr>"

section \<open>Sample inputs\<close>

definition sample_polarity :: "string \<Rightarrow> real" where
  "sample_polarity txt =
     (if txt = ''good'' then 1 / 2 else if txt = ''great'' then 1
      else if txt = ''bad'' then - 1 else 0)"

definition title_only_post :: post where
  "title_only_post = \<lparr> post_title = ''great'', post_selftext = [] \<rparr>"

definition sample_social :: social_api where
  "sample_social =
     \<lparr> twitter_api = Some (\<lambda>query. Inr [''good'']),
       reddit_api = Some (\<lambda>subreddit query.
         (if subreddit = ''cryptocurrency'' then [title_only_post] else [], None)),
       polarity = sample_polarity \<rparr>"

definition silent_social :: social_api where
  "silent_social = \<lparr> twitter_api = None, reddit_api = None, polarity = sample_polarity \<rparr>"

definition sample_row :: "fl \<Rightarrow> indicator_row" where
  "sample_row rsi =
     \<lparr> c_timestamp = 0, c_open = 1, c_high = 1, c_low = 1, c_close = 1, c_volume = 1,
       row_macd = NaN, row_macd_signal = NaN, row_rsi = rsi,
       row_bb_high = NaN, row_bb_low = NaN, row_bb_mid = NaN,
       row_volume_sma = NaN, row_sma_20 = NaN, row_sma_50 = NaN, row_sma_200 = NaN,
       row_price_change_24h = NaN, row_price_change_7d = NaN \<rparr>"

definition flat_candle :: candle where
  "flat_candle =
     \<lparr> c_timestamp = 0, c_open = 1, c_high = 1, c_low = 1, c_close = 1, c_volume = 1 \<rparr>"

definition five_candles :: "candle list" where
  "five_candles = replicate 5 flat_candle"

text \<open>An indicator library that cleans nothing away and has no value in any row.\<close>

definition sample_ta :: ta_lib where
  "sample_ta =
     \<lparr> ta_dropna = (\<lambda>df. df),
       ta_macd = (\<lambda>closes i. NaN),
       ta_macd_signal = (\<lambda>closes i. NaN),
       ta_rsi = (\<lambda>closes i. NaN),
       ta_bollinger_hband = (\<lambda>closes i. NaN),
       ta_bollinger_lband = (\<lambda>closes i. NaN),
       ta_bollinger_mavg = (\<lambda>closes i. NaN) \<rparr>"

definition sample_coin :: "string \<Rightarrow> real \<Rightarrow> candidate" where
  "sample_coin symbol combined =
     \<lparr> coin_symbol = symbol, coin_current_price = 1, coin_price_change_24h = 0,
       coin_daily_volume = 200000, coin_risk_score = 0, coin_potential_score = PyInt 5,
       coin_combined_score = combined, coin_technical_analysis = None,
       coin_sentiment_analysis = None, coin_analysis_time = [], coin_recommendation = [] \<rparr>"

definition sample_ticker :: ticker where
  "sample_ticker = \<lparr> tk_last = 110, tk_open = 100, tk_quoteVolume = 200000 \<rparr>"

text \<open>
  A run over three markets: the ticker of the first cannot be fetched, the second has
  five flat candles, the third is not quoted in USDT.
\<close>

definition sample_env :: "social_api \<Rightarrow> env" where
  "sample_env api =
     \<lparr> load_markets = Inr [''BAD/USDT'', ''BTC/USDT'', ''ETH/BTC''],
       fetch_ticker = (\<lambda>symbol. if symbol = ''BTC/USDT'' then Inr sample_ticker
                                else Inl (ExternalError ''request timed out'')),
       fetch_ohlcv = (\<lambda>symbol. Inr five_candles),
       technical = sample_ta,
       social = api,
       clock = (\<lambda>site symbol. ''2024-01-01 00:00:00''),
       str_float = (\<lambda>r. ''...'') \<rparr>"

definition surging_ticker :: ticker where
  "surging_ticker = \<lparr> tk_last = 140, tk_open = 100, tk_quoteVolume = 200000 \<rparr>"

definition neutral_social :: social_api where
  "neutral_social =
     \<lparr> twitter_api = Some (\<lambda>query. Inr [''meh'']), reddit_api = None,
       polarity = sample_polarity \<rparr>"

text \<open>The technical analysis of the five flat candles under \<open>sample_ta\<close>.\<close>

definition flat_analysis :: analysis where
  "flat_analysis =
     \<lparr> an_trend = \<lparr> macd_trend = Bearish, sma_trend = Bearish, long_term_trend = Bearish \<rparr>,
       an_momentum = \<lparr> rsi_value = NaN, rsi_condition = Neutral \<rparr>,
       an_volatility = \<lparr> bb_position = Middle, bb_width = NaN \<rparr>,
       an_volume = \<lparr> vol_volume_trend = Decreasing, vol_volume_change = NaN \<rparr>,
       an_price_action =
         \<lparr> pa_price_change_24h = Num 0, pa_price_change_7d = NaN, pa_above_200_sma = False \<rparr> \<rparr>"

definition flat_technical :: "string \<Rightarrow> technical_analysis" where
  "flat_technical now =
     \<lparr> ta_technical_score = PyFloat (11 / 2),
       ta_analysis = flat_analysis,
       ta_signals = [''Strong downtrend confirmed by multiple indicators''],
       ta_analysis_time = now \<rparr>"

text \<open>Inputs on which every upward adjustment of the potential score fires.\<close>

definition bullish_technical :: technical_analysis where
  "bullish_technical =
     \<lparr> ta_technical_score = PyFloat 10,
       ta_analysis =
         \<lparr> an_trend = \<lparr> macd_trend = Bullish, sma_trend = Bullish, long_term_trend = Bullish \<rparr>,
           an_momentum = \<lparr> rsi_value = Num 55, rsi_condition = Neutral \<rparr>,
           an_volatility = \<lparr> bb_position = Middle, bb_width = Num 1 \<rparr>,
           an_volume = \<lparr> vol_volume_trend = Increasing, vol_volume_change = Num 1 \<rparr>,
           an_price_action =
             \<lparr> pa_price_change_24h = Num 1, pa_price_change_7d = Num 1,
               pa_above_200_sma = True \<rparr> \<rparr>,
       ta_signals = [],
       ta_analysis_time = [] \<rparr>"

definition glowing_sentiment :: sentiment_analysis where
  "glowing_sentiment = \<lparr> sa_combined_score = 1, sa_details = [], sa_analysis_time = [] \<rparr>"

definition rising_candles :: "candle list" where
  "rising_candles = [flat_candle, flat_candle \<lparr> c_close := 2 \<rparr>]"

section \<open>Properties\<close>

subsection \<open>Floats and rounding\<close>

lemma fl_nan_cmp [simp]:
  "\<not> fl_lt NaN x" "\<not> fl_lt x NaN" "\<not> fl_gt NaN x" "\<not> fl_gt x NaN"
  "\<not> fl_le NaN x" "\<not> fl_le x NaN"
  by (cases x; simp add: fl_gt_def)+

lemma py_max_min_bounds:
  "1 \<le> num_val (py_max (PyInt 1) (py_min (PyInt 10) x)) \<and>
   num_val (py_max (PyInt 1) (py_min (PyInt 10) x)) \<le> 10"
  by (simp add: py_max_def py_min_def)



lemma round_half_even_of_int: "round_half_even (real_of_int n) = n"
  unfolding round_half_even_def Let_def by simp

lemma round_half_even_between:
  assumes "real_of_int a \<le> x" and "x \<le> real_of_int b"
  shows "a \<le> round_half_even x \<and> round_half_even x \<le> b"
proof -
  have lo: "a \<le> \<lfloor>x\<rfloor>" using assms(1) by (simp add: le_floor_iff)
  have ge: "\<lfloor>x\<rfloor> \<le> round_half_even x"
    unfolding round_half_even_def Let_def by simp
  have up: "round_half_even x \<le> b"
  proof (cases "x = real_of_int b")
    case True
    then show ?thesis by (simp add: round_half_even_of_int)
  next
    case False
    with assms(2) have "x < real_of_int b" by simp
    then have "\<lfloor>x\<rfloor> < b" by (simp add: floor_less_iff)
    moreover have "round_half_even x \<le> \<lfloor>x\<rfloor> + 1"
      unfolding round_half_even_def Let_def by simp
    ultimately show ?thesis by linarith
  qed
  from lo ge up show ?thesis by linarith
qed

lemma py_round2_between:
  assumes "0 \<le> x" and "x \<le> 10"
  shows "0 \<le> py_round2 x \<and> py_round2 x \<le> 10"
proof -
  have "0 \<le> round_half_even (x * 100) \<and> round_half_even (x * 100) \<le> 1000"
    using assms by (intro round_half_even_between) simp_all
  then show ?thesis unfolding py_round2_def by simp
qed



lemma iloc_last: "df \<noteq> [] \<Longrightarrow> iloc_neg df (Suc 0) = Inr (last df)"
  by (cases df rule: rev_cases) (simp_all add: iloc_neg_def)

subsection \<open>The combined score\<close>



subsection \<open>The RSI condition\<close>

text \<open>
  C3: \<open>_analyze_momentum\<close> classifies the RSI of the latest row with strict
  comparisons: overbought exactly when the RSI is above 70, oversold exactly when it is
  below 30, neutral otherwise. An RSI of exactly 70 or exactly 30, any RSI between
  them, and a missing RSI are neutral.
\<close>

theorem rsi_condition_strict:
  assumes "df \<noteq> []" and "row_rsi (last df) = v"
  shows "\<exists>m. analyze_momentum df = Inr m \<and> rsi_value m = v \<and>
           (rsi_condition m = Overbought \<longleftrightarrow> fl_gt v (Num 70)) \<and>
           (rsi_condition m = Oversold \<longleftrightarrow> \<not> fl_gt v (Num 70) \<and> fl_lt v (Num 30)) \<and>
           (v = Num 70 \<longrightarrow> rsi_condition m = Neutral) \<and>
           (v = Num 30 \<longrightarrow> rsi_condition m = Neutral) \<and>
           (\<forall>r. v = Num r \<longrightarrow>
              (rsi_condition m = Overbought \<longleftrightarrow> 70 < r) \<and>
              (rsi_condition m = Oversold \<longleftrightarrow> r < 30) \<and>
              (rsi_condition m = Neutral \<longleftrightarrow> 30 \<le> r \<and> r \<le> 70)) \<and>
           (v = NaN \<longrightarrow> rsi_condition m = Neutral)"
  using assms by (auto simp: analyze_momentum_def bind_err_def iloc_last fl_gt_def)

theorem rsi_condition_strict_witness:
  "(\<exists>m. analyze_momentum [sample_row (Num 70)] = Inr m \<and> rsi_value m = Num 70 \<and>
        rsi_condition m = Neutral)
   \<and> (\<exists>m. analyze_momentum [sample_row (Num 30)] = Inr m \<and> rsi_value m = Num 30 \<and>
        rsi_condition m = Neutral)"
proof -
  have r: "row_rsi (last [sample_row v]) = v" for v
    by (simp add: sample_row_def)
  have n: "[sample_row v] \<noteq> []" for v
    by simp
  from rsi_condition_strict [OF n r, of "Num 70"]
  obtain m where "analyze_momentum [sample_row (Num 70)] = Inr m" "rsi_value m = Num 70"
    "Num 70 = Num 70 \<longrightarrow> rsi_condition m = Neutral"
    by (elim exE conjE)
  then have a: "\<exists>m. analyze_momentum [sample_row (Num 70)] = Inr m \<and> rsi_value m = Num 70 \<and>
        rsi_condition m = Neutral"
    by simp
  from rsi_condition_strict [OF n r, of "Num 30"]
  obtain m where "analyze_momentum [sample_row (Num 30)] = Inr m" "rsi_value m = Num 30"
    "Num 30 = Num 30 \<longrightarrow> rsi_condition m = Neutral"
    by (elim exE conjE)
  then have b: "\<exists>m. analyze_momentum [sample_row (Num 30)] = Inr m \<and> rsi_value m = Num 30 \<and>
        rsi_condition m = Neutral"
    by simp
  from a b show ?thesis by (rule conjI)
qed

subsection \<open>Sentiment\<close>

lemma num_val_py_add [simp]: "num_val (py_add a b) = num_val a + num_val b"
  by (cases a; cases b) simp_all

lemma social_combined:
  "map_option sa_combined_score (analyze_social_sentiment api now symbol) =
     spec_weighted_average
       [(1.0, src_score (analyze_twitter_sentiment api symbol)),
        (0.8, src_score (analyze_reddit_sentiment api symbol))]"
  by (simp add: analyze_social_sentiment_def spec_weighted_average_def combine_step_def Let_def
      split: option.splits)

lemma social_cases:
  "map_option sa_combined_score (analyze_social_sentiment api now symbol) =
     (case (src_score (analyze_twitter_sentiment api symbol),
            src_score (analyze_reddit_sentiment api symbol)) of
        (None, None) \<Rightarrow> None
      | (Some t, None) \<Rightarrow> Some t
      | (None, Some r) \<Rightarrow> Some r
      | (Some t, Some r) \<Rightarrow> Some ((t * 1.0 + r * 0.8) / 1.8))"
  by (simp add: analyze_social_sentiment_def combine_step_def Let_def
      split: option.splits)

lemma risk_sentiment_term:
  "calculate_risk_score v vc pc ta (Some s) =
     calculate_risk_score v vc pc ta None + (if sa_combined_score s < - 0.5 then 1 else 0)"
  by (simp add: calculate_risk_score_def Let_def split: option.splits)

lemma potential_sentiment_term:
  "num_val (potential_score_raw df ta (Some s)) =
     num_val (potential_score_raw df ta None)
       + (if sa_combined_score s > 0 then min 2 (sa_combined_score s * 2) else 0)"
  by (simp add: potential_score_raw_def Let_def py_min_def split: option.splits)

lemma combined_without_sentiment:
  "calculate_combined_score r p ta None =
     py_round2 (num_val p * 0.4 + (10 - real_of_int r) * 0.3
       + (case ta of None \<Rightarrow> 0 | Some t \<Rightarrow> num_val (ta_technical_score t) * 0.2))"
  by (simp add: calculate_combined_score_def Let_def split: option.splits)

lemma recommendation_sentiment_line:
  "length (recommendation_lines fmt r p ta (Some s)) =
     length (recommendation_lines fmt r p ta None) + 1
   \<and> last (recommendation_lines fmt r p ta (Some s)) =
       ''Market Sentiment: '' @ get_sentiment_summary (Some s)
   \<and> length (recommendation_lines fmt r p ta None) =
       3 + (case ta of None \<Rightarrow> 0 | Some t \<Rightarrow> length (ta_signals t))"
  by (simp add: recommendation_lines_def Let_def split: option.splits)

text \<open>
  C5: the combined sentiment is the weighted average of the platform scores that are
  available, with weight 1.0 for Twitter and 0.8 for Reddit; it is absent exactly when
  neither platform has a score. Downstream, an absent sentiment contributes nothing:
  the risk score, the potential score and the combined score with a sentiment result
  are those without one plus the sentiment term, and the recommendation has its
  sentiment line only when a result is present.
\<close>

theorem social_sentiment_weighted_average:
  "map_option sa_combined_score (analyze_social_sentiment api now symbol) =
     spec_weighted_average
       [(1.0, src_score (analyze_twitter_sentiment api symbol)),
        (0.8, src_score (analyze_reddit_sentiment api symbol))]
   \<and> map_option sa_combined_score (analyze_social_sentiment api now symbol) =
     (case (src_score (analyze_twitter_sentiment api symbol),
            src_score (analyze_reddit_sentiment api symbol)) of
        (None, None) \<Rightarrow> None
      | (Some t, None) \<Rightarrow> Some t
      | (None, Some r) \<Rightarrow> Some r
      | (Some t, Some r) \<Rightarrow> Some ((t * 1.0 + r * 0.8) / 1.8))
   \<and> calculate_risk_score v vc pc ta (Some s) =
       calculate_risk_score v vc pc ta None + (if sa_combined_score s < - 0.5 then 1 else 0)
   \<and> num_val (potential_score_raw df ta (Some s)) =
       num_val (potential_score_raw df ta None)
         + (if sa_combined_score s > 0 then min 2 (sa_combined_score s * 2) else 0)
   \<and> calculate_combined_score r p ta None =
       py_round2 (num_val p * 0.4 + (10 - real_of_int r) * 0.3
         + (case ta of None \<Rightarrow> 0 | Some t \<Rightarrow> num_val (ta_technical_score t) * 0.2))
   \<and> length (recommendation_lines fmt r p ta None) =
       3 + (case ta of None \<Rightarrow> 0 | Some t \<Rightarrow> length (ta_signals t))
   \<and> length (recommendation_lines fmt r p ta (Some s)) =
       length (recommendation_lines fmt r p ta None) + 1
   \<and> last (recommendation_lines fmt r p ta (Some s)) =
       ''Market Sentiment: '' @ get_sentiment_summary (Some s)"
  using social_combined [of api now symbol] social_cases [of api now symbol]
    risk_sentiment_term [of v vc pc ta s] potential_sentiment_term [of df ta s]
    combined_without_sentiment [of r p ta] recommendation_sentiment_line [of fmt r p ta s]
  by blast

lemma sample_twitter: "src_score (analyze_twitter_sentiment sample_social ''BTC'') = Some (1 / 2)"
  by (simp add: analyze_twitter_sentiment_def sample_social_def sample_polarity_def average_def)

lemma sample_reddit_posts:
  "reddit_posts (\<lambda>subreddit query.
         (if subreddit = ''cryptocurrency'' then [title_only_post] else [], None)) ''BTC''
   = [title_only_post]"
  by (simp add: reddit_posts_def py_lower_def)

lemma sample_reddit: "src_score (analyze_reddit_sentiment sample_social ''BTC'') = Some (3 / 5)"
  by (simp add: analyze_reddit_sentiment_def sample_social_def sample_reddit_posts
      post_sentiment_def title_only_post_def sample_polarity_def average_def)

lemma silent_scores:
  "src_score (analyze_twitter_sentiment silent_social ''BTC'') = None"
  "src_score (analyze_reddit_sentiment silent_social ''BTC'') = None"
  by (simp_all add: analyze_twitter_sentiment_def analyze_reddit_sentiment_def silent_social_def)

theorem social_sentiment_weighted_average_witness:
  "map_option sa_combined_score (analyze_social_sentiment sample_social [] ''BTC'') = Some (49 / 90)
   \<and> analyze_social_sentiment silent_social [] ''BTC'' = None
   \<and> calculate_combined_score 0 (PyInt 7) None None = 29 / 5"
proof -
  note t1 = social_sentiment_weighted_average
      [where api = sample_social and now = "[]" and symbol = "''BTC''" and ta = None
         and r = 0 and p = "PyInt 7"]
  note t2 = social_sentiment_weighted_average
      [where api = silent_social and now = "[]" and symbol = "''BTC''" and ta = None
         and r = 0 and p = "PyInt 7"]
  have a: "map_option sa_combined_score (analyze_social_sentiment sample_social [] ''BTC'')
      = Some (49 / 90)"
    using t1 [THEN conjunct2, THEN conjunct1] by (simp add: sample_twitter sample_reddit)
  have b: "analyze_social_sentiment silent_social [] ''BTC'' = None"
    using t2 [THEN conjunct2, THEN conjunct1] by (simp add: silent_scores)
  have c: "calculate_combined_score 0 (PyInt 7) None None = 29 / 5"
    using t1 [THEN conjunct2, THEN conjunct2, THEN conjunct2, THEN conjunct2, THEN conjunct1]
    by (simp add: py_round2_def round_half_even_def)
  from a b c show ?thesis by simp
qed

text \<open>
  C10: a Reddit submission with an empty body enters the platform average with 0.6 times
  its title polarity: the 0.4 of the body is dropped, not given to the title, so with a
  title polarity in \<open>[-1, 1]\<close> the item lies in \<open>[-0.6, 0.6]\<close>.
\<close>

theorem reddit_title_only_weight:
  assumes "reddit_api api = Some search"
    and "p \<in> set (reddit_posts search symbol)"
    and "post_selftext p = []"
  shows "post_sentiment (polarity api) p = 0.6 * polarity api (post_title p)
    \<and> (- 1 \<le> polarity api (post_title p) \<and> polarity api (post_title p) \<le> 1 \<longrightarrow>
         - 0.6 \<le> post_sentiment (polarity api) p \<and> post_sentiment (polarity api) p \<le> 0.6)
    \<and> src_score (analyze_reddit_sentiment api symbol) =
         Some (average (map (post_sentiment (polarity api)) (reddit_posts search symbol)))
    \<and> post_sentiment (polarity api) p
         \<in> set (map (post_sentiment (polarity api)) (reddit_posts search symbol))"
proof -
  from assms(2) have ne: "reddit_posts search symbol \<noteq> []" by auto
  have a: "post_sentiment (polarity api) p = 0.6 * polarity api (post_title p)"
    using assms(3) by (simp add: post_sentiment_def Let_def)
  have b: "src_score (analyze_reddit_sentiment api symbol) =
         Some (average (map (post_sentiment (polarity api)) (reddit_posts search symbol)))"
    using assms(1) ne by (simp add: analyze_reddit_sentiment_def Let_def)
  have c: "post_sentiment (polarity api) p
         \<in> set (map (post_sentiment (polarity api)) (reddit_posts search symbol))"
    using assms(2) by simp
  from a b c show ?thesis by simp
qed

theorem reddit_title_only_weight_witness:
  "post_sentiment sample_polarity title_only_post = 3 / 5
   \<and> sample_polarity (post_title title_only_post) = 1
   \<and> src_score (analyze_reddit_sentiment sample_social ''BTC'') = Some (3 / 5)"
proof -
  have api: "reddit_api sample_social = Some (\<lambda>subreddit query.
         (if subreddit = ''cryptocurrency'' then [title_only_post] else [], None))"
    by (simp add: sample_social_def)
  have mem: "title_only_post \<in> set (reddit_posts (\<lambda>subreddit query.
         (if subreddit = ''cryptocurrency'' then [title_only_post] else [], None)) ''BTC'')"
    by (simp add: sample_reddit_posts)
  have body: "post_selftext title_only_post = []"
    by (simp add: title_only_post_def)
  from reddit_title_only_weight [OF api mem body]
  show ?thesis
    by (simp add: sample_social_def sample_reddit_posts title_only_post_def sample_polarity_def
        average_def)
qed





subsection \<open>Ranking\<close>

lemma py_sort_reverse_mset: "mset (py_sort_reverse f xs) = mset xs"
  by (simp add: py_sort_reverse_def)

lemma py_sort_reverse_sorted: "sorted_wrt (\<lambda>a b. f a \<ge> f b) (py_sort_reverse f xs)"
proof -
  have "sorted (map f (sort_key f (rev xs)))" by (rule sorted_sort_key)
  then have "sorted_wrt (\<lambda>a b. f a \<le> f b) (sort_key f (rev xs))"
    by (simp add: sorted_map)
  then show ?thesis
    by (simp add: py_sort_reverse_def sorted_wrt_rev)
qed

lemma py_sort_reverse_stable:
  "filter (\<lambda>y. f y = k) (py_sort_reverse f xs) = filter (\<lambda>y. f y = k) xs"
proof -
  have "filter (\<lambda>y. f y = k) (py_sort_reverse f xs)
      = rev (filter (\<lambda>y. f y = k) (sort_key f (rev xs)))"
    by (simp add: py_sort_reverse_def rev_filter)
  also have "\<dots> = rev (filter (\<lambda>y. f y = k) (rev xs))"
    by (simp only: sort_key_stable)
  also have "\<dots> = filter (\<lambda>y. f y = k) xs"
    by (simp add: rev_filter)
  finally show ?thesis .
qed

lemma py_sort_reverse_three:
  assumes "map f xs = [13 / 2, 9, 36 / 5]"
  shows "map f (py_sort_reverse f xs) = [9, 36 / 5, 13 / 2]"
proof -
  from assms obtain a b c where xs: "xs = [a, b, c]" and
    f: "f a = 13 / 2" "f b = 9" "f c = 36 / 5"
    by (auto simp: map_eq_Cons_conv)
  show ?thesis
    by (simp add: xs py_sort_reverse_def f)
qed

text \<open>
  C6: the final output of the orchestrator is the list of retained candidates sorted by
  combined score in descending order, stably: it is a permutation of the retained list,
  no candidate is followed by one with a higher score, and candidates with equal scores
  keep their input order. Three candidates with scores 6.5, 9.0 and 7.2 come out as
  9.0, 7.2, 6.5.
\<close>

theorem ranking_stable_descending:
  "mset (rank_coins cs) = mset cs
   \<and> sorted_wrt (\<lambda>a b. coin_combined_score a \<ge> coin_combined_score b) (rank_coins cs)
   \<and> (\<forall>k. filter (\<lambda>c. coin_combined_score c = k) (rank_coins cs)
          = filter (\<lambda>c. coin_combined_score c = k) cs)
   \<and> (map coin_combined_score cs = [6.5, 9.0, 7.2] \<longrightarrow>
        map coin_combined_score (rank_coins cs) = [9.0, 7.2, 6.5])
   \<and> (load_markets e = Inr markets \<longrightarrow>
        fst (get_promising_coins e) = rank_coins (fst (scan_markets e markets [] [])))"
proof -
  have a: "mset (rank_coins cs) = mset cs"
    by (simp add: rank_coins_def py_sort_reverse_mset)
  have b: "sorted_wrt (\<lambda>a b. coin_combined_score a \<ge> coin_combined_score b) (rank_coins cs)"
    using py_sort_reverse_sorted [of coin_combined_score cs] by (simp add: rank_coins_def)
  have c: "filter (\<lambda>c. coin_combined_score c = k) (rank_coins cs)
          = filter (\<lambda>c. coin_combined_score c = k) cs" for k
    by (simp add: rank_coins_def py_sort_reverse_stable)
  have d: "map coin_combined_score cs = [6.5, 9.0, 7.2] \<longrightarrow>
        map coin_combined_score (rank_coins cs) = [9.0, 7.2, 6.5]"
    using py_sort_reverse_three [of coin_combined_score cs]
    by (auto simp: rank_coins_def)
  have e: "load_markets e = Inr markets \<longrightarrow>
        fst (get_promising_coins e) = rank_coins (fst (scan_markets e markets [] []))"
    by (simp add: get_promising_coins_def Let_def)
  from a b c d e show ?thesis by blast
qed

theorem ranking_stable_descending_witness:
  "map coin_combined_score
     (rank_coins [sample_coin ''A'' 6.5, sample_coin ''B'' 9.0, sample_coin ''C'' 7.2])
     = [9.0, 7.2, 6.5]
   \<and> mset (rank_coins [sample_coin ''A'' 6.5, sample_coin ''B'' 9.0, sample_coin ''C'' 7.2])
     = mset [sample_coin ''A'' 6.5, sample_coin ''B'' 9.0, sample_coin ''C'' 7.2]
   \<and> rank_coins [sample_coin ''A'' 7, sample_coin ''B'' 7] = [sample_coin ''A'' 7, sample_coin ''B'' 7]"
proof -
  note t = ranking_stable_descending
      [where cs = "[sample_coin ''A'' 6.5, sample_coin ''B'' 9.0, sample_coin ''C'' 7.2]"]
  have a: "map coin_combined_score
     (rank_coins [sample_coin ''A'' 6.5, sample_coin ''B'' 9.0, sample_coin ''C'' 7.2])
     = [9.0, 7.2, 6.5]"
    using t [THEN conjunct2, THEN conjunct2, THEN conjunct2, THEN conjunct1]
    by (simp add: sample_coin_def)
  have b: "mset (rank_coins [sample_coin ''A'' 6.5, sample_coin ''B'' 9.0, sample_coin ''C'' 7.2])
     = mset [sample_coin ''A'' 6.5, sample_coin ''B'' 9.0, sample_coin ''C'' 7.2]"
    using t [THEN conjunct1] .
  have c: "rank_coins [sample_coin ''A'' 7, sample_coin ''B'' 7]
      = [sample_coin ''A'' 7, sample_coin ''B'' 7]"
    by (simp add: rank_coins_def py_sort_reverse_def sample_coin_def)
  from a b c show ?thesis by simp
qed


subsection \<open>Score bounds\<close>

lemma risk_score_bounds:
  "0 \<le> calculate_risk_score v vc pc ta sa \<and> calculate_risk_score v vc pc ta sa \<le> 10"
  unfolding calculate_risk_score_def Let_def
  by (simp split: option.splits)

lemma technical_score_bounds:
  "1 \<le> num_val (calculate_technical_score an) \<and> num_val (calculate_technical_score an) \<le> 10"
  unfolding calculate_technical_score_def by (rule py_max_min_bounds)

lemma potential_score_bounds:
  "1 \<le> num_val (assess_potential df ta sa) \<and> num_val (assess_potential df ta sa) \<le> 10"
  unfolding assess_potential_def by (rule py_max_min_bounds)

lemma clamp_exact:
  "(10 \<le> num_val x \<longrightarrow> num_val (py_max (PyInt 1) (py_min (PyInt 10) x)) = 10)
   \<and> (num_val x \<le> 1 \<longrightarrow> num_val (py_max (PyInt 1) (py_min (PyInt 10) x)) = 1)
   \<and> (1 \<le> num_val x \<and> num_val x \<le> 10 \<longrightarrow>
        num_val (py_max (PyInt 1) (py_min (PyInt 10) x)) = num_val x)"
  by (auto simp: py_max_def py_min_def)

lemma sum_list_abs_le:
  assumes "\<forall>x \<in> set xs. \<bar>x\<bar> \<le> (1::real)"
  shows "\<bar>sum_list xs\<bar> \<le> real (length xs)"
  using assms by (induction xs) (auto simp: abs_le_iff)

lemma average_bounded:
  assumes "xs \<noteq> []" and "\<forall>x \<in> set xs. \<bar>x\<bar> \<le> (1::real)"
  shows "\<bar>average xs\<bar> \<le> 1"
proof -
  have "0 < real (length xs)" using assms(1) by simp
  moreover have "\<bar>sum_list xs\<bar> \<le> real (length xs)" using assms(2) by (rule sum_list_abs_le)
  ultimately show ?thesis
    unfolding average_def by (simp add: field_simps)
qed

lemma post_sentiment_bounded:
  assumes "\<forall>txt. \<bar>pol txt\<bar> \<le> 1"
  shows "\<bar>post_sentiment pol p\<bar> \<le> 1"
proof -
  have t: "\<bar>pol (post_title p)\<bar> \<le> 1" and b: "\<bar>pol (post_selftext p)\<bar> \<le> 1"
    using assms by blast+
  then show ?thesis
    unfolding post_sentiment_def Let_def by (auto simp: abs_le_iff)
qed

lemma twitter_score_bounded:
  assumes "\<forall>txt. \<bar>polarity api txt\<bar> \<le> 1"
    and "src_score (analyze_twitter_sentiment api symbol) = Some t"
  shows "\<bar>t\<bar> \<le> 1"
  using assms(2) average_bounded [of "map (polarity api) tweets" for tweets] assms(1)
  by (auto simp: analyze_twitter_sentiment_def Let_def split: option.splits sum.splits if_splits)

lemma reddit_score_bounded:
  assumes "\<forall>txt. \<bar>polarity api txt\<bar> \<le> 1"
    and "src_score (analyze_reddit_sentiment api symbol) = Some r"
  shows "\<bar>r\<bar> \<le> 1"
  using assms(2) average_bounded [of "map (post_sentiment (polarity api)) ps" for ps]
    post_sentiment_bounded [OF assms(1)]
  by (auto simp: analyze_reddit_sentiment_def Let_def split: option.splits if_splits)

lemma social_sentiment_bounded:
  assumes "\<forall>txt. \<bar>polarity api txt\<bar> \<le> 1"
    and "analyze_social_sentiment api now symbol = Some s"
  shows "\<bar>sa_combined_score s\<bar> \<le> 1"
proof -
  have c: "map_option sa_combined_score (analyze_social_sentiment api now symbol)
      = Some (sa_combined_score s)"
    using assms(2) by simp
  show ?thesis
  proof (cases "src_score (analyze_twitter_sentiment api symbol)")
    case None
    note tw = this
    show ?thesis
    proof (cases "src_score (analyze_reddit_sentiment api symbol)")
      case None
      with tw c show ?thesis by (simp add: social_cases)
    next
      case (Some r)
      with tw c reddit_score_bounded [OF assms(1) Some] show ?thesis
        by (simp add: social_cases)
    qed
  next
    case (Some t)
    note tw = this
    have tb: "\<bar>t\<bar> \<le> 1" using twitter_score_bounded [OF assms(1) tw] .
    show ?thesis
    proof (cases "src_score (analyze_reddit_sentiment api symbol)")
      case None
      with tw c tb show ?thesis by (simp add: social_cases)
    next
      case (Some r)
      have rb: "\<bar>r\<bar> \<le> 1" using reddit_score_bounded [OF assms(1) Some] .
      have "sa_combined_score s = (t * 1.0 + r * 0.8) / 1.8"
        using tw Some c by (simp add: social_cases)
      with tb rb show ?thesis by (simp add: abs_le_iff)
    qed
  qed
qed

lemma combined_score_bounds:
  assumes "0 \<le> r" "r \<le> 10" "1 \<le> num_val p" "num_val p \<le> 10"
    and "\<forall>t. ta = Some t \<longrightarrow> 1 \<le> num_val (ta_technical_score t) \<and> num_val (ta_technical_score t) \<le> 10"
    and "\<forall>s. sa = Some s \<longrightarrow> \<bar>sa_combined_score s\<bar> \<le> 1"
  shows "0 \<le> calculate_combined_score r p ta sa \<and> calculate_combined_score r p ta sa \<le> 10"
proof -
  let ?tech = "case ta of None \<Rightarrow> 0 | Some t \<Rightarrow> num_val (ta_technical_score t) * 0.2"
  let ?sent = "case sa of None \<Rightarrow> 0 | Some s \<Rightarrow> ((sa_combined_score s + 1) / 2) * 10 * 0.1"
  have eq: "calculate_combined_score r p ta sa =
      py_round2 (num_val p * 0.4 + (10 - real_of_int r) * 0.3 + ?tech + ?sent)"
    by (simp add: calculate_combined_score_def Let_def add.assoc split: option.splits)
  have t: "0 \<le> ?tech \<and> ?tech \<le> 2"
    using assms(5) by (cases ta) auto
  have s: "0 \<le> ?sent \<and> ?sent \<le> 1"
    using assms(6) by (cases sa) (auto simp: abs_le_iff)
  have r: "0 \<le> (10 - real_of_int r) * 0.3 \<and> (10 - real_of_int r) * 0.3 \<le> 3"
    using assms(1,2) by simp
  have p: "0 \<le> num_val p * 0.4 \<and> num_val p * 0.4 \<le> 4"
    using assms(3,4) by simp
  show ?thesis unfolding eq
    by (rule py_round2_between) (use t s r p in linarith)+
qed


subsection \<open>Short series\<close>




lemma length_calculate_indicators [simp]:
  "length (calculate_indicators lib df) = length df"
  by (simp add: calculate_indicators_def)




lemma fl_arith_nan [simp]:
  "fl_sub x NaN = NaN" "fl_sub NaN x = NaN" "fl_div x NaN = NaN" "fl_div NaN x = NaN"
  by (cases x; simp add: fl_sub_def)+









subsection \<open>One coin\<close>

lemma technical_result_score:
  "analyze_technical_indicators lib now df = (Some t, lg) \<Longrightarrow>
   ta_technical_score t = calculate_technical_score (ta_analysis t)"
  by (auto simp: analyze_technical_indicators_def technical_body_def Let_def bind_err_def
      split: sum.splits)

lemma coin_assessment_Inr:
  assumes "coin_assessment e symbol tk = (printed, Inr a)"
  shows "\<exists>df. fetch_ohlcv e symbol = Inr df \<and> tk_open tk \<noteq> 0
     \<and> (as_technical_analysis a, printed) =
         analyze_technical_indicators (technical e) (clock e TechnicalClock symbol) df
     \<and> as_sentiment_analysis a =
         analyze_social_sentiment (social e) (clock e SentimentClock symbol)
           (takeWhile (\<lambda>c. c \<noteq> CHR ''/'') symbol)
     \<and> as_risk_score a =
         calculate_risk_score (as_volatility a) (as_volume_change_24h a) (as_price_change_24h a)
           (as_technical_analysis a) (as_sentiment_analysis a)
     \<and> as_potential_score a =
         assess_potential df (as_technical_analysis a) (as_sentiment_analysis a)
     \<and> as_combined_score a =
         calculate_combined_score (as_risk_score a) (as_potential_score a)
           (as_technical_analysis a) (as_sentiment_analysis a)"
  using assms
  by (auto simp: coin_assessment_def Let_def split: sum.splits if_splits)

text \<open>
  C2: every score a coin is assessed with lies within its bounds, whichever adjustments
  fired: the risk score in \<open>[0, 10]\<close>, the potential score and the technical score in
  \<open>[1, 10]\<close>, the combined score in \<open>[0, 10]\<close>. The technical and the potential
  score are clamped: a raw score of 10 or more gives exactly 10, one of 1 or less
  exactly 1. The risk score and the combined score carry no clamp; their terms cannot
  sum beyond the range, the combined score given that the polarity scorer keeps to
  its documented range \<open>[-1, 1]\<close>.
\<close>

theorem scores_within_bounds:
  assumes "\<forall>txt. - 1 \<le> polarity (social e) txt \<and> polarity (social e) txt \<le> 1"
    and "coin_assessment e symbol tk = (printed, Inr a)"
  shows "0 \<le> as_risk_score a \<and> as_risk_score a \<le> 10
     \<and> 1 \<le> num_val (as_potential_score a) \<and> num_val (as_potential_score a) \<le> 10
     \<and> 0 \<le> as_combined_score a \<and> as_combined_score a \<le> 10
     \<and> (\<forall>t. as_technical_analysis a = Some t \<longrightarrow>
          1 \<le> num_val (ta_technical_score t) \<and> num_val (ta_technical_score t) \<le> 10)
     \<and> 1 \<le> num_val (calculate_technical_score an) \<and> num_val (calculate_technical_score an) \<le> 10
     \<and> (10 \<le> num_val (technical_score_raw an) \<longrightarrow> num_val (calculate_technical_score an) = 10)
     \<and> (num_val (technical_score_raw an) \<le> 1 \<longrightarrow> num_val (calculate_technical_score an) = 1)
     \<and> 1 \<le> num_val (assess_potential df ta sa) \<and> num_val (assess_potential df ta sa) \<le> 10
     \<and> (10 \<le> num_val (potential_score_raw df ta sa) \<longrightarrow> num_val (assess_potential df ta sa) = 10)
     \<and> (num_val (potential_score_raw df ta sa) \<le> 1 \<longrightarrow> num_val (assess_potential df ta sa) = 1)
     \<and> 0 \<le> calculate_risk_score v vc pc ta sa \<and> calculate_risk_score v vc pc ta sa \<le> 10"
proof -
  from coin_assessment_Inr [OF assms(2)] obtain df' where
    tech: "(as_technical_analysis a, printed) =
         analyze_technical_indicators (technical e) (clock e TechnicalClock symbol) df'"
    and sent: "as_sentiment_analysis a =
         analyze_social_sentiment (social e) (clock e SentimentClock symbol)
           (takeWhile (\<lambda>c. c \<noteq> CHR ''/'') symbol)"
    and risk: "as_risk_score a =
         calculate_risk_score (as_volatility a) (as_volume_change_24h a) (as_price_change_24h a)
           (as_technical_analysis a) (as_sentiment_analysis a)"
    and pot: "as_potential_score a =
         assess_potential df' (as_technical_analysis a) (as_sentiment_analysis a)"
    and comb: "as_combined_score a =
         calculate_combined_score (as_risk_score a) (as_potential_score a)
           (as_technical_analysis a) (as_sentiment_analysis a)"
    by blast
  have pol: "\<forall>txt. \<bar>polarity (social e) txt\<bar> \<le> 1"
    using assms(1) by (simp add: abs_le_iff)
  have r: "0 \<le> as_risk_score a \<and> as_risk_score a \<le> 10"
    unfolding risk by (rule risk_score_bounds)
  have p: "1 \<le> num_val (as_potential_score a) \<and> num_val (as_potential_score a) \<le> 10"
    unfolding pot by (rule potential_score_bounds)
  have t: "\<forall>t. as_technical_analysis a = Some t \<longrightarrow>
          1 \<le> num_val (ta_technical_score t) \<and> num_val (ta_technical_score t) \<le> 10"
  proof (intro allI impI)
    fix t assume "as_technical_analysis a = Some t"
    with tech have "analyze_technical_indicators (technical e) (clock e TechnicalClock symbol) df'
        = (Some t, printed)" by simp
    from technical_result_score [OF this] show
      "1 \<le> num_val (ta_technical_score t) \<and> num_val (ta_technical_score t) \<le> 10"
      by (simp add: technical_score_bounds)
  qed
  have s: "\<forall>s. as_sentiment_analysis a = Some s \<longrightarrow> \<bar>sa_combined_score s\<bar> \<le> 1"
    using social_sentiment_bounded [OF pol] sent by metis
  have c: "0 \<le> as_combined_score a \<and> as_combined_score a \<le> 10"
    unfolding comb using r p t s by (intro combined_score_bounds) blast+
  have tc: "(10 \<le> num_val (technical_score_raw an) \<longrightarrow> num_val (calculate_technical_score an) = 10)
     \<and> (num_val (technical_score_raw an) \<le> 1 \<longrightarrow> num_val (calculate_technical_score an) = 1)"
    unfolding calculate_technical_score_def using clamp_exact by blast
  have pc: "(10 \<le> num_val (potential_score_raw df ta sa) \<longrightarrow> num_val (assess_potential df ta sa) = 10)
     \<and> (num_val (potential_score_raw df ta sa) \<le> 1 \<longrightarrow> num_val (assess_potential df ta sa) = 1)"
    unfolding assess_potential_def using clamp_exact by blast
  from r p c t tc pc technical_score_bounds [of an] potential_score_bounds [of df ta sa]
    risk_score_bounds [of v vc pc ta sa]
  show ?thesis by blast
qed


lemma scan_markets_acc:
  "set (fst (scan_markets e ms coins out)) =
     set coins \<union> {c. \<exists>s \<in> set ms. fst (process_symbol e s) = Some c}"
  by (induction ms arbitrary: coins out) (auto simp: Let_def split: option.splits)

lemma analyze_coin_Some:
  "analyze_coin e symbol tk = (Some c, lg) \<Longrightarrow> 6 \<le> coin_combined_score c"
  by (auto simp: analyze_coin_def split: prod.splits sum.splits if_splits)

lemma process_symbol_Some:
  "fst (process_symbol e s) = Some c \<Longrightarrow> 6 \<le> coin_combined_score c"
  using analyze_coin_Some [of e s _ c]
  by (auto simp: process_symbol_def split: sum.splits if_splits) (metis prod.collapse)

lemma set_rank_coins: "set (rank_coins cs) = set cs"
  by (metis py_sort_reverse_mset rank_coins_def set_mset_mset)

text \<open>
  C4: once the scores of a coin are computed, \<open>analyze_coin\<close> returns a candidate
  record exactly when the combined score is at least 6, so a score of exactly 6.00 is
  retained. Below the threshold it returns \<open>None\<close> and prints nothing beyond what
  was printed before the test. Every candidate in the result of the screening run has a
  combined score of at least 6.
\<close>

theorem inclusion_threshold:
  assumes "coin_assessment e symbol tk = (printed, Inr a)"
  shows "(fst (analyze_coin e symbol tk) \<noteq> None) = (6 \<le> as_combined_score a)
     \<and> (6 \<le> as_combined_score a \<longrightarrow>
          (\<exists>c. analyze_coin e symbol tk = (Some c, printed) \<and> coin_symbol c = symbol
             \<and> coin_combined_score c = as_combined_score a))
     \<and> (as_combined_score a = 6 \<longrightarrow> fst (analyze_coin e symbol tk) \<noteq> None)
     \<and> (as_combined_score a < 6 \<longrightarrow> analyze_coin e symbol tk = (None, printed))
     \<and> snd (analyze_coin e symbol tk) = fst (coin_assessment e symbol tk)
     \<and> (\<forall>c \<in> set (fst (get_promising_coins e)). 6 \<le> coin_combined_score c)"
proof -
  have a: "analyze_coin e symbol tk =
      (if 6 \<le> as_combined_score a then fst (analyze_coin e symbol tk) else None, printed)"
    using assms by (simp add: analyze_coin_def)
  have b: "6 \<le> as_combined_score a \<longrightarrow>
          (\<exists>c. analyze_coin e symbol tk = (Some c, printed) \<and> coin_symbol c = symbol
             \<and> coin_combined_score c = as_combined_score a)"
    using assms by (simp add: analyze_coin_def)
  have c: "as_combined_score a < 6 \<longrightarrow> analyze_coin e symbol tk = (None, printed)"
    using assms by (simp add: analyze_coin_def)
  have d: "\<forall>c \<in> set (fst (get_promising_coins e)). 6 \<le> coin_combined_score c"
    by (auto simp: get_promising_coins_def Let_def set_rank_coins scan_markets_acc
        process_symbol_Some split: sum.splits)
  have e: "snd (analyze_coin e symbol tk) = fst (coin_assessment e symbol tk)"
    using assms by (simp add: analyze_coin_def)
  have f: "(fst (analyze_coin e symbol tk) \<noteq> None) = (6 \<le> as_combined_score a)"
    using assms by (simp add: analyze_coin_def)
  from b c d e f show ?thesis by auto
qed

subsection \<open>The sample run\<close>


lemma flat_rows:
  "analyze_indicators (calculate_indicators sample_ta five_candles) = Inr flat_analysis"
  by (simp add: sample_ta_def five_candles_def flat_candle_def flat_analysis_def
      calculate_indicators_def analyze_indicators_def bind_err_def iloc_neg_def Let_def
      analyze_trend_def analyze_momentum_def analyze_volatility_def analyze_volume_def
      analyze_price_action_def indicator_row_at_def rolling_mean_def pct_change_def
      eval_nat_numeral fl_sub_def)

lemma flat_scores:
  "calculate_technical_score flat_analysis = PyFloat (11 / 2)"
  "generate_signals flat_analysis = [''Strong downtrend confirmed by multiple indicators'']"
  by (simp_all add: calculate_technical_score_def technical_score_raw_def generate_signals_def
      flat_analysis_def Let_def py_max_def py_min_def fl_gt_def)

lemma flat_technical_eval:
  "analyze_technical_indicators sample_ta now five_candles = (Some (flat_technical now), [])"
proof -
  have d: "ta_dropna sample_ta five_candles = five_candles"
    by (simp add: sample_ta_def)
  show ?thesis
    by (simp add: analyze_technical_indicators_def technical_body_def d flat_rows bind_err_def
        flat_scores flat_technical_def)
qed

lemma five_stats:
  "series_mean (map c_volume five_candles) = Num 1"
  "series_mean (map c_close five_candles) = Num 1"
  "series_std (map c_close five_candles) = Num 0"
  "fl_mean_skipna (map (pct_change 1 (map c_close five_candles))
      [0..<length (map c_close five_candles)]) = Num 0"
  by (simp_all add: series_mean_def series_std_def fl_mean_skipna_def five_candles_def
      flat_candle_def pct_change_def eval_nat_numeral fl_sub_def)

lemma neutral_sentiment_eval:
  "map_option sa_combined_score (analyze_social_sentiment neutral_social now ''BTC'') = Some 0"
  by (simp add: analyze_social_sentiment_def analyze_twitter_sentiment_def
      analyze_reddit_sentiment_def neutral_social_def sample_polarity_def average_def
      combine_step_def Let_def)

lemma silent_sentiment_eval:
  "analyze_social_sentiment silent_social now symbol = None"
  by (simp add: analyze_social_sentiment_def analyze_twitter_sentiment_def
      analyze_reddit_sentiment_def silent_social_def combine_step_def Let_def)


lemma base_symbol_eval: "takeWhile (\<lambda>c. c \<noteq> CHR ''/'') ''BTC/USDT'' = ''BTC''"
  by simp

lemma five_trend:
  "fl_mean_skipna (map (pct_change (Suc 0) (map c_close five_candles))
      [0..<length five_candles]) = Num 0"
  using five_stats(4) by simp

lemma flat_technical_fields:
  "bb_position (an_volatility (ta_analysis (flat_technical now))) = Middle"
  "rsi_condition (an_momentum (ta_analysis (flat_technical now))) = Neutral"
  "rsi_value (an_momentum (ta_analysis (flat_technical now))) = NaN"
  "macd_trend (an_trend (ta_analysis (flat_technical now))) = Bearish"
  "vol_volume_trend (an_volume (ta_analysis (flat_technical now))) = Decreasing"
  "ta_technical_score (flat_technical now) = PyFloat (11 / 2)"
  by (simp_all add: flat_technical_def flat_analysis_def)

lemma surging_scores:
  assumes "sa = None \<or> (\<exists>s. sa = Some s \<and> sa_combined_score s = 0)"
  shows "calculate_risk_score (Num 0) (Num 199999) 40 (Some (flat_technical now)) sa = 2"
    and "assess_potential five_candles (Some (flat_technical now)) sa = PyInt 5"
  using assms
  by (auto simp: calculate_risk_score_def assess_potential_def potential_score_raw_def Let_def
      flat_technical_fields five_trend fl_gt_def py_max_def py_min_def)

lemma threshold_assessment:
  "\<exists>a. coin_assessment (sample_env neutral_social) ''BTC/USDT'' surging_ticker = ([], Inr a)
     \<and> as_combined_score a = 6 \<and> as_risk_score a = 2 \<and> as_potential_score a = PyInt 5"
proof -
  obtain s where s: "analyze_social_sentiment neutral_social ''2024-01-01 00:00:00'' ''BTC'' = Some s"
    "sa_combined_score s = 0"
    using neutral_sentiment_eval [of "''2024-01-01 00:00:00''"] by auto
  have c: "calculate_combined_score 2 (PyInt 5) (Some (flat_technical now)) (Some s) = 6" for now
    by (simp add: calculate_combined_score_def Let_def flat_technical_fields s(2)
        py_round2_def round_half_even_def)
  show ?thesis
    using surging_scores [of "Some s" "''2024-01-01 00:00:00''"] s
    by (simp add: coin_assessment_def sample_env_def flat_technical_eval Let_def
        surging_ticker_def five_stats fl_sub_def c)
qed

lemma dropped_assessment:
  "\<exists>a. coin_assessment (sample_env silent_social) ''BTC/USDT'' surging_ticker = ([], Inr a)
     \<and> as_combined_score a = 11 / 2"
proof -
  have c: "calculate_combined_score 2 (PyInt 5) (Some (flat_technical now)) None = 11 / 2" for now
    by (simp add: calculate_combined_score_def Let_def flat_technical_fields
        py_round2_def round_half_even_def)
  show ?thesis
    using surging_scores [of None "''2024-01-01 00:00:00''"]
    by (simp add: coin_assessment_def sample_env_def flat_technical_eval Let_def
        surging_ticker_def five_stats fl_sub_def c silent_sentiment_eval)
qed


lemma sample_polarity_bounded: "- 1 \<le> sample_polarity txt \<and> sample_polarity txt \<le> 1"
  by (simp add: sample_polarity_def)

lemma rising_potential:
  "potential_score_raw rising_candles (Some bullish_technical) (Some glowing_sentiment)
     = PyFloat (21 / 2)"
  by (simp add: potential_score_raw_def Let_def bullish_technical_def glowing_sentiment_def
      rising_candles_def flat_candle_def fl_gt_def py_min_def fl_mean_skipna_def pct_change_def
      fl_sub_def eval_nat_numeral)

theorem scores_within_bounds_witness:
  "(\<exists>a. coin_assessment (sample_env neutral_social) ''BTC/USDT'' surging_ticker = ([], Inr a)
      \<and> 0 \<le> as_risk_score a \<and> as_risk_score a \<le> 10
      \<and> 1 \<le> num_val (as_potential_score a) \<and> num_val (as_potential_score a) \<le> 10
      \<and> 0 \<le> as_combined_score a \<and> as_combined_score a \<le> 10)
   \<and> num_val (potential_score_raw rising_candles (Some bullish_technical)
        (Some glowing_sentiment)) = 21 / 2
   \<and> num_val (assess_potential rising_candles (Some bullish_technical)
        (Some glowing_sentiment)) = 10"
proof -
  from threshold_assessment obtain a where
    a: "coin_assessment (sample_env neutral_social) ''BTC/USDT'' surging_ticker = ([], Inr a)"
    by blast
  have pol: "\<forall>txt. - 1 \<le> polarity (social (sample_env neutral_social)) txt
      \<and> polarity (social (sample_env neutral_social)) txt \<le> 1"
    by (simp add: sample_env_def neutral_social_def sample_polarity_bounded)
  note t = scores_within_bounds [OF pol a, where df = rising_candles
      and ta = "Some bullish_technical" and sa = "Some glowing_sentiment"]
  have raw: "num_val (potential_score_raw rising_candles (Some bullish_technical)
        (Some glowing_sentiment)) = 21 / 2"
    by (simp add: rising_potential)
  have b: "0 \<le> as_risk_score a \<and> as_risk_score a \<le> 10
      \<and> 1 \<le> num_val (as_potential_score a) \<and> num_val (as_potential_score a) \<le> 10
      \<and> 0 \<le> as_combined_score a \<and> as_combined_score a \<le> 10"
    using t by blast
  have c: "num_val (assess_potential rising_candles (Some bullish_technical)
        (Some glowing_sentiment)) = 10"
    using t raw by simp
  from a b raw c show ?thesis by blast
qed

theorem inclusion_threshold_witness:
  "(\<exists>c. analyze_coin (sample_env neutral_social) ''BTC/USDT'' surging_ticker = (Some c, [])
      \<and> coin_symbol c = ''BTC/USDT'' \<and> coin_combined_score c = 6)
   \<and> analyze_coin (sample_env silent_social) ''BTC/USDT'' surging_ticker = (None, [])"
proof -
  from threshold_assessment obtain a where
    a: "coin_assessment (sample_env neutral_social) ''BTC/USDT'' surging_ticker = ([], Inr a)"
    and a6: "as_combined_score a = 6"
    by blast
  from dropped_assessment obtain b where
    b: "coin_assessment (sample_env silent_social) ''BTC/USDT'' surging_ticker = ([], Inr b)"
    and b5: "as_combined_score b = 11 / 2"
    by blast
  have x: "\<exists>c. analyze_coin (sample_env neutral_social) ''BTC/USDT'' surging_ticker = (Some c, [])
      \<and> coin_symbol c = ''BTC/USDT'' \<and> coin_combined_score c = 6"
    using inclusion_threshold [OF a, THEN conjunct2, THEN conjunct1] a6 by simp
  have y: "analyze_coin (sample_env silent_social) ''BTC/USDT'' surging_ticker = (None, [])"
    using inclusion_threshold [OF b, THEN conjunct2, THEN conjunct2, THEN conjunct2, THEN conjunct1]
      b5 by simp
  from x y show ?thesis by blast
qed




subsection \<open>Failure isolation\<close>

lemma scan_markets_eq:
  "scan_markets e ms coins out =
     (coins @ concat (map (\<lambda>s. case fst (process_symbol e s) of None \<Rightarrow> [] | Some c \<Rightarrow> [c]) ms),
      out @ concat (map (\<lambda>s. snd (process_symbol e s)) ms))"
  by (induction ms arbitrary: coins out) (simp_all add: Let_def split: option.splits)

lemma coin_assessment_markets [simp]:
  "coin_assessment (e\<lparr>load_markets := m\<rparr>) s tk = coin_assessment e s tk"
  by (simp add: coin_assessment_def split: sum.splits)

lemma analyze_coin_markets [simp]:
  "analyze_coin (e\<lparr>load_markets := m\<rparr>) s tk = analyze_coin e s tk"
  by (simp add: analyze_coin_def split: prod.splits sum.splits)

lemma process_symbol_markets [simp]:
  "process_symbol (e\<lparr>load_markets := m\<rparr>) s = process_symbol e s"
  by (simp add: process_symbol_def split: sum.splits)

lemma process_symbol_ticker_error:
  assumes "endswith s ''/USDT''" and "fetch_ticker e s = Inl err"
  shows "process_symbol e s = (None, [''Error analyzing '' @ s @ '': '' @ err_msg err])"
  using assms by (simp add: process_symbol_def)

lemma process_symbol_coin_error:
  assumes "endswith s ''/USDT''" and "fetch_ticker e s = Inr tk"
    and "min_daily_volume < tk_quoteVolume tk"
    and "coin_assessment e s tk = (printed, Inl err)"
  shows "process_symbol e s =
     (None, printed @ [''Error in analyze_coin for '' @ s @ '': '' @ err_msg err])"
  using assms by (simp add: process_symbol_def analyze_coin_def)

text \<open>
  C8: an exception raised while one symbol is analysed, by the ticker request or inside
  \<open>analyze_coin\<close>, stays inside that symbol's turn of the loop: the symbol
  contributes no candidate, a line naming it is printed, and the result of the run is
  the ranking of what the other symbols contribute, the same as if the failing symbol
  had not been listed. \<open>get_promising_coins\<close> always returns a list.
\<close>

theorem symbol_failure_isolated:
  assumes "load_markets e = Inr (pre @ s # post)"
    and "endswith s ''/USDT''"
    and "fetch_ticker e s = Inl err
         \<or> (\<exists>tk printed. fetch_ticker e s = Inr tk \<and> min_daily_volume < tk_quoteVolume tk
               \<and> coin_assessment e s tk = (printed, Inl err))"
  shows "fst (process_symbol e s) = None
     \<and> (''Error analyzing '' @ s @ '': '' @ err_msg err \<in> set (snd (get_promising_coins e))
         \<or> ''Error in analyze_coin for '' @ s @ '': '' @ err_msg err
              \<in> set (snd (get_promising_coins e)))
     \<and> fst (get_promising_coins e) =
         fst (get_promising_coins (e\<lparr>load_markets := Inr (pre @ post)\<rparr>))
     \<and> fst (get_promising_coins e) =
         rank_coins (concat (map (\<lambda>s. case fst (process_symbol e s) of None \<Rightarrow> []
                                        | Some c \<Rightarrow> [c]) (pre @ post)))"
proof -
  have none: "fst (process_symbol e s) = None"
    and line: "''Error analyzing '' @ s @ '': '' @ err_msg err \<in> set (snd (process_symbol e s))
         \<or> ''Error in analyze_coin for '' @ s @ '': '' @ err_msg err
              \<in> set (snd (process_symbol e s))"
    using assms(3) process_symbol_ticker_error [OF assms(2)]
      process_symbol_coin_error [OF assms(2)]
    by auto
  have printed: "set (snd (process_symbol e s)) \<subseteq> set (snd (get_promising_coins e))"
    by (auto simp: get_promising_coins_def assms(1) Let_def scan_markets_eq)
  have coins: "fst (get_promising_coins e) =
      rank_coins (concat (map (\<lambda>s. case fst (process_symbol e s) of None \<Rightarrow> []
                                        | Some c \<Rightarrow> [c]) (pre @ post)))"
    by (simp add: get_promising_coins_def assms(1) Let_def scan_markets_eq none)
  have other: "fst (get_promising_coins (e\<lparr>load_markets := Inr (pre @ post)\<rparr>)) =
      rank_coins (concat (map (\<lambda>s. case fst (process_symbol e s) of None \<Rightarrow> []
                                        | Some c \<Rightarrow> [c]) (pre @ post)))"
    by (simp add: get_promising_coins_def Let_def scan_markets_eq)
  from none line printed coins other show ?thesis by auto
qed


lemma analyze_coin_retained:
  assumes "coin_assessment e s tk = (printed, Inr a)" and "6 \<le> as_combined_score a"
  shows "\<exists>c. analyze_coin e s tk = (Some c, printed) \<and> coin_symbol c = s
           \<and> coin_combined_score c = as_combined_score a"
  using assms by (simp add: analyze_coin_def)

lemma steady_scores:
  assumes "sa_combined_score s = 0"
  shows "calculate_risk_score (Num 0) (Num 199999) 10 (Some (flat_technical now)) (Some s) = 0"
    and "assess_potential five_candles (Some (flat_technical now)) (Some s) = PyInt 5"
    and "calculate_combined_score 0 (PyInt 5) (Some (flat_technical now)) (Some s) = 33 / 5"
  using assms
  by (auto simp: calculate_risk_score_def assess_potential_def potential_score_raw_def Let_def
      flat_technical_fields five_trend fl_gt_def py_max_def py_min_def
      calculate_combined_score_def py_round2_def round_half_even_def)

lemma steady_assessment:
  "\<exists>a. coin_assessment (sample_env neutral_social) ''BTC/USDT'' sample_ticker = ([], Inr a)
     \<and> as_combined_score a = 33 / 5"
proof -
  obtain s where s: "analyze_social_sentiment neutral_social ''2024-01-01 00:00:00'' ''BTC'' = Some s"
    "sa_combined_score s = 0"
    using neutral_sentiment_eval [of "''2024-01-01 00:00:00''"] by auto
  show ?thesis
    using steady_scores [OF s(2), of "''2024-01-01 00:00:00''"] s
    by (simp add: coin_assessment_def sample_env_def flat_technical_eval Let_def
        sample_ticker_def five_stats fl_sub_def)
qed

lemma sample_symbols:
  "endswith ''BAD/USDT'' ''/USDT''" "endswith ''BTC/USDT'' ''/USDT''"
  "\<not> endswith ''ETH/BTC'' ''/USDT''"
  by (simp_all add: endswith_def)

lemma sample_run:
  "\<exists>c. get_promising_coins (sample_env neutral_social) =
         ([c], [''Error analyzing BAD/USDT: request timed out''])
       \<and> coin_symbol c = ''BTC/USDT'' \<and> coin_combined_score c = 33 / 5"
proof -
  let ?e = "sample_env neutral_social"
  from steady_assessment obtain a where
    a: "coin_assessment ?e ''BTC/USDT'' sample_ticker = ([], Inr a)"
    and a6: "as_combined_score a = 33 / 5" by blast
  from analyze_coin_retained [OF a] a6 obtain c where
    c: "analyze_coin ?e ''BTC/USDT'' sample_ticker = (Some c, [])"
    "coin_symbol c = ''BTC/USDT''" "coin_combined_score c = 33 / 5"
    by auto
  have bad: "process_symbol ?e ''BAD/USDT'' =
      (None, [''Error analyzing BAD/USDT: request timed out''])"
    by (simp add: process_symbol_def sample_symbols sample_env_def)
  have btc: "process_symbol ?e ''BTC/USDT'' = (Some c, [])"
    using c(1)
    by (simp add: process_symbol_def sample_symbols sample_env_def [of neutral_social]
        sample_ticker_def min_daily_volume_def)
  have eth: "process_symbol ?e ''ETH/BTC'' = (None, [])"
    by (simp add: process_symbol_def sample_symbols)
  have m: "load_markets ?e = Inr [''BAD/USDT'', ''BTC/USDT'', ''ETH/BTC'']"
    by (simp add: sample_env_def)
  have "get_promising_coins ?e = ([c], [''Error analyzing BAD/USDT: request timed out''])"
    by (simp add: get_promising_coins_def m Let_def bad btc eth rank_coins_def
        py_sort_reverse_def)
  with c show ?thesis by blast
qed

theorem symbol_failure_isolated_witness:
  "fst (process_symbol (sample_env neutral_social) ''BAD/USDT'') = None
   \<and> ''Error analyzing BAD/USDT: request timed out''
        \<in> set (snd (get_promising_coins (sample_env neutral_social)))
   \<and> fst (get_promising_coins (sample_env neutral_social)) =
        fst (get_promising_coins
          ((sample_env neutral_social)\<lparr>load_markets := Inr [''BTC/USDT'', ''ETH/BTC'']\<rparr>))
   \<and> map coin_symbol (fst (get_promising_coins (sample_env neutral_social))) = [''BTC/USDT'']"
proof -
  let ?e = "sample_env neutral_social"
  have m: "load_markets ?e = Inr ([] @ ''BAD/USDT'' # [''BTC/USDT'', ''ETH/BTC''])"
    by (simp add: sample_env_def)
  have f: "fetch_ticker ?e ''BAD/USDT'' = Inl (ExternalError ''request timed out'')
      \<or> (\<exists>tk printed. fetch_ticker ?e ''BAD/USDT'' = Inr tk
            \<and> min_daily_volume < tk_quoteVolume tk
            \<and> coin_assessment ?e ''BAD/USDT'' tk
                 = (printed, Inl (ExternalError ''request timed out'')))"
    by (simp add: sample_env_def)
  note t = symbol_failure_isolated [OF m sample_symbols(1) f]
  from sample_run obtain c where
    r: "get_promising_coins ?e = ([c], [''Error analyzing BAD/USDT: request timed out''])"
    "coin_symbol c = ''BTC/USDT''" by blast
  have a: "fst (process_symbol ?e ''BAD/USDT'') = None"
    using t by blast
  have b: "''Error analyzing BAD/USDT: request timed out''
        \<in> set (snd (get_promising_coins ?e))"
    using r by simp
  have c: "fst (get_promising_coins ?e) =
        fst (get_promising_coins (?e\<lparr>load_markets := Inr [''BTC/USDT'', ''ETH/BTC'']\<rparr>))"
    using t [THEN conjunct2, THEN conjunct2, THEN conjunct1] by simp
  have d: "map coin_symbol (fst (get_promising_coins ?e)) = [''BTC/USDT'']"
    using r by simp
  from a b c d show ?thesis by blast
qed




subsection \<open>Determinism\<close>

lemma technical_time:
  "analyze_technical_indicators lib now df =
     (map_option (\<lambda>t. t\<lparr>ta_analysis_time := now\<rparr>)
        (fst (analyze_technical_indicators lib [] df)),
      snd (analyze_technical_indicators lib [] df))"
  by (simp add: analyze_technical_indicators_def technical_body_def bind_err_def Let_def
      split: sum.splits)

lemma sentiment_time:
  "analyze_social_sentiment api now symbol =
     map_option (\<lambda>s. s\<lparr>sa_analysis_time := now\<rparr>) (analyze_social_sentiment api [] symbol)"
  by (simp add: analyze_social_sentiment_def Let_def)

lemma risk_time [simp]:
  "calculate_risk_score v vc pc (map_option (ta_analysis_time_update f) ta)
      (map_option (sa_analysis_time_update g) sa) = calculate_risk_score v vc pc ta sa"
  by (cases ta; cases sa) (simp_all add: calculate_risk_score_def Let_def)

lemma potential_time [simp]:
  "assess_potential df (map_option (ta_analysis_time_update f) ta)
      (map_option (sa_analysis_time_update g) sa) = assess_potential df ta sa"
  by (cases ta; cases sa) (simp_all add: assess_potential_def potential_score_raw_def Let_def)

lemma combined_time [simp]:
  "calculate_combined_score r p (map_option (ta_analysis_time_update f) ta)
      (map_option (sa_analysis_time_update g) sa) = calculate_combined_score r p ta sa"
  by (cases ta; cases sa) (simp_all add: calculate_combined_score_def Let_def)

lemma summary_time [simp]:
  "get_sentiment_summary (map_option (sa_analysis_time_update g) sa) = get_sentiment_summary sa"
  by (cases sa) (simp_all add: get_sentiment_summary_def Let_def)

lemma recommendation_time [simp]:
  "generate_recommendation fmt r p (map_option (ta_analysis_time_update f) ta)
      (map_option (sa_analysis_time_update g) sa) = generate_recommendation fmt r p ta sa"
proof -
  have "recommendation_lines fmt r p (map_option (ta_analysis_time_update f) ta)
      (map_option (sa_analysis_time_update g) sa) = recommendation_lines fmt r p ta sa"
    unfolding recommendation_lines_def combined_time summary_time
    by (cases ta; cases sa) (simp_all add: Let_def)
  then show ?thesis by (simp add: generate_recommendation_def)
qed


lemma strip_technical_time [simp]:
  "map_option strip_technical (map_option (ta_analysis_time_update f) ta)
     = map_option strip_technical ta"
  by (cases ta) (simp_all add: strip_technical_def)

lemma strip_sentiment_time [simp]:
  "map_option strip_sentiment (map_option (sa_analysis_time_update f) sa)
     = map_option strip_sentiment sa"
  by (cases sa) (simp_all add: strip_sentiment_def)

lemma analyze_coin_clock:
  "map_option strip_candidate (fst (analyze_coin (e\<lparr>clock := clk\<rparr>) s tk))
     = map_option strip_candidate (fst (analyze_coin e s tk))
   \<and> snd (analyze_coin (e\<lparr>clock := clk\<rparr>) s tk) = snd (analyze_coin e s tk)"
proof (cases "fetch_ohlcv e s")
  case (Inl err)
  then show ?thesis by (simp add: analyze_coin_def coin_assessment_def)
next
  case (Inr df)
  define T0 where "T0 = analyze_technical_indicators (technical e) [] df"
  define S0 where "S0 = analyze_social_sentiment (social e) []
      (takeWhile (\<lambda>c. c \<noteq> CHR ''/'') s)"
  have te: "analyze_technical_indicators (technical e) now df =
      (map_option (ta_analysis_time_update (\<lambda>_. now)) (fst T0), snd T0)" for now
    using technical_time [of "technical e" now df] by (simp add: T0_def)
  have se: "analyze_social_sentiment (social e) now (takeWhile (\<lambda>c. c \<noteq> CHR ''/'') s) =
      map_option (sa_analysis_time_update (\<lambda>_. now)) S0" for now
    using sentiment_time [of "social e" now] by (simp add: S0_def)
  show ?thesis
    by (simp add: analyze_coin_def coin_assessment_def Inr te se Let_def strip_candidate_def)
qed


lemma process_symbol_clock:
  "map_option strip_candidate (fst (process_symbol (e\<lparr>clock := clk\<rparr>) s))
     = map_option strip_candidate (fst (process_symbol e s))
   \<and> snd (process_symbol (e\<lparr>clock := clk\<rparr>) s) = snd (process_symbol e s)"
  using analyze_coin_clock [where e = e and clk = clk and s = s]
  by (simp add: process_symbol_def split: sum.splits)

lemma insort_key_map:
  assumes "\<And>x. f (g x) = f x"
  shows "insort_key f (g x) (map g ys) = map g (insort_key f x ys)"
  by (induction ys) (simp_all add: assms)

lemma sort_key_map:
  assumes "\<And>x. f (g x) = f x"
  shows "sort_key f (map g xs) = map g (sort_key f xs)"
proof (induction xs)
  case Nil
  then show ?case by simp
next
  case (Cons x xs)
  have "insort_key f (g x) (map g (sort_key f xs)) = map g (insort_key f x (sort_key f xs))"
    by (rule insort_key_map) (rule assms)
  with Cons show ?case by simp
qed

lemma rank_coins_strip:
  "map strip_candidate (rank_coins cs) = rank_coins (map strip_candidate cs)"
proof -
  have k: "coin_combined_score (strip_candidate c) = coin_combined_score c" for c
    by (simp add: strip_candidate_def)
  have "sort_key coin_combined_score (map strip_candidate xs)
      = map strip_candidate (sort_key coin_combined_score xs)" for xs
    by (rule sort_key_map) (rule k)
  then show ?thesis
    by (simp add: rank_coins_def py_sort_reverse_def rev_map)
qed

lemma option_list_strip:
  "map strip_candidate (case r of None \<Rightarrow> [] | Some c \<Rightarrow> [c]) =
     (case map_option strip_candidate r of None \<Rightarrow> [] | Some c \<Rightarrow> [c])"
  by (cases r) simp_all

lemma get_promising_coins_clock:
  "map strip_candidate (fst (get_promising_coins (e\<lparr>clock := clk\<rparr>)))
     = map strip_candidate (fst (get_promising_coins e))
   \<and> snd (get_promising_coins (e\<lparr>clock := clk\<rparr>)) = snd (get_promising_coins e)"
proof (cases "load_markets e")
  case (Inl err)
  then show ?thesis by (simp add: get_promising_coins_def)
next
  case (Inr ms)
  have a: "map strip_candidate (concat (map (\<lambda>s. case fst (process_symbol e' s) of
        None \<Rightarrow> [] | Some c \<Rightarrow> [c]) ms)) =
      concat (map (\<lambda>s. case map_option strip_candidate (fst (process_symbol e' s)) of
        None \<Rightarrow> [] | Some c \<Rightarrow> [c]) ms)" for e'
    by (simp add: map_concat comp_def option_list_strip)
  show ?thesis
    by (simp add: get_promising_coins_def Inr Let_def scan_markets_eq rank_coins_strip a
        process_symbol_clock)
qed

text \<open>
  C9: the analysis is a function of the candle series, the ticker and the sentiment
  samples. The clock enters only the three \<open>analysis_time\<close> fields: under any other
  clock the technical analysis, the candidate record (risk, potential and combined
  score, recommendation text), the ranked result of the run and every printed line are
  the same once those fields are blanked.
\<close>

theorem analysis_deterministic:
  "map_option strip_technical (fst (analyze_technical_indicators lib now df))
     = map_option strip_technical (fst (analyze_technical_indicators lib now' df))
   \<and> snd (analyze_technical_indicators lib now df)
       = snd (analyze_technical_indicators lib now' df)
   \<and> map_option strip_candidate (fst (analyze_coin (e\<lparr>clock := clk\<rparr>) symbol tk))
       = map_option strip_candidate (fst (analyze_coin e symbol tk))
   \<and> snd (analyze_coin (e\<lparr>clock := clk\<rparr>) symbol tk) = snd (analyze_coin e symbol tk)
   \<and> map_option coin_risk_score (fst (analyze_coin (e\<lparr>clock := clk\<rparr>) symbol tk))
       = map_option coin_risk_score (fst (analyze_coin e symbol tk))
   \<and> map_option coin_potential_score (fst (analyze_coin (e\<lparr>clock := clk\<rparr>) symbol tk))
       = map_option coin_potential_score (fst (analyze_coin e symbol tk))
   \<and> map_option coin_combined_score (fst (analyze_coin (e\<lparr>clock := clk\<rparr>) symbol tk))
       = map_option coin_combined_score (fst (analyze_coin e symbol tk))
   \<and> map_option coin_recommendation (fst (analyze_coin (e\<lparr>clock := clk\<rparr>) symbol tk))
       = map_option coin_recommendation (fst (analyze_coin e symbol tk))
   \<and> map strip_candidate (fst (get_promising_coins (e\<lparr>clock := clk\<rparr>)))
       = map strip_candidate (fst (get_promising_coins e))
   \<and> snd (get_promising_coins (e\<lparr>clock := clk\<rparr>)) = snd (get_promising_coins e)"
proof -
  let ?a' = "fst (analyze_coin (e\<lparr>clock := clk\<rparr>) symbol tk)"
  let ?a = "fst (analyze_coin e symbol tk)"
  have t: "map_option strip_technical (fst (analyze_technical_indicators lib now df))
     = map_option strip_technical (fst (analyze_technical_indicators lib now' df))
   \<and> snd (analyze_technical_indicators lib now df)
       = snd (analyze_technical_indicators lib now' df)"
    using technical_time [of lib now df] technical_time [of lib now' df] by simp
  have c: "map_option strip_candidate ?a' = map_option strip_candidate ?a"
    and l: "snd (analyze_coin (e\<lparr>clock := clk\<rparr>) symbol tk) = snd (analyze_coin e symbol tk)"
    using analyze_coin_clock [where e = e and clk = clk and s = symbol and tk = tk] by simp_all
  have f: "map_option g ?a' = map_option g ?a" if "\<And>x. g (strip_candidate x) = g x" for g :: "candidate \<Rightarrow> 'b"
  proof -
    have "map_option g (map_option strip_candidate ?a') = map_option g (map_option strip_candidate ?a)"
      using c by simp
    then show ?thesis by (simp add: option.map_comp comp_def that)
  qed
  have r: "map_option coin_risk_score ?a' = map_option coin_risk_score ?a"
    by (rule f) (simp add: strip_candidate_def)
  have p: "map_option coin_potential_score ?a' = map_option coin_potential_score ?a"
    by (rule f) (simp add: strip_candidate_def)
  have s: "map_option coin_combined_score ?a' = map_option coin_combined_score ?a"
    by (rule f) (simp add: strip_candidate_def)
  have m: "map_option coin_recommendation ?a' = map_option coin_recommendation ?a"
    by (rule f) (simp add: strip_candidate_def)
  from t c l r p s m get_promising_coins_clock [where e = e and clk = clk] show ?thesis by simp
qed


theorem analysis_deterministic_witness:
  "map_option strip_candidate
      (fst (analyze_coin ((sample_env neutral_social)\<lparr>clock := \<lambda>site symbol. ''2025-06-30 12:00:00''\<rparr>)
         ''BTC/USDT'' sample_ticker))
     = map_option strip_candidate
         (fst (analyze_coin (sample_env neutral_social) ''BTC/USDT'' sample_ticker))
   \<and> map_option coin_recommendation
      (fst (analyze_coin ((sample_env neutral_social)\<lparr>clock := \<lambda>site symbol. ''2025-06-30 12:00:00''\<rparr>)
         ''BTC/USDT'' sample_ticker))
     = map_option coin_recommendation
         (fst (analyze_coin (sample_env neutral_social) ''BTC/USDT'' sample_ticker))
   \<and> fst (analyze_coin (sample_env neutral_social) ''BTC/USDT'' sample_ticker) \<noteq> None"
proof -
  note t = analysis_deterministic
      [where e = "sample_env neutral_social" and clk = "\<lambda>site symbol. ''2025-06-30 12:00:00''"
         and symbol = "''BTC/USDT''" and tk = sample_ticker]
  from steady_assessment obtain a where
    a: "coin_assessment (sample_env neutral_social) ''BTC/USDT'' sample_ticker = ([], Inr a)"
    and a6: "as_combined_score a = 33 / 5" by blast
  from analyze_coin_retained [OF a] a6
  have n: "fst (analyze_coin (sample_env neutral_social) ''BTC/USDT'' sample_ticker) \<noteq> None"
    by auto
  from t [THEN conjunct2, THEN conjunct2, THEN conjunct1]
    t [THEN conjunct2, THEN conjunct2, THEN conjunct2, THEN conjunct2, THEN conjunct2,
       THEN conjunct2, THEN conjunct2, THEN conjunct1] n
  show ?thesis by blast
qed


end
